theory Spec2Isabelle
  imports Main "HOL-Library.Sublist" "HOL-Library.AList"
begin

section \<open>DPO utilities: datasets and model preparation\<close>

text \<open>
  A shallow embedding of \<^verbatim>\<open>src/DPO/utils.py\<close>. The two functions of the file,
  \<^verbatim>\<open>create_dpo_datasets\<close> and \<^verbatim>\<open>create_and_prepare_model_for_dpo\<close>, decide which library
  call to make and with which arguments. A run of either is therefore modelled as the list
  of library calls it makes, in order, together with its outcome: an exception or a value.
  What a library call answers is not part of the file: it is a parameter of the model
  (a record of functions, \<open>None\<close> when the call raises).
\<close>

subsection \<open>Python values\<close>

text \<open>
  \<^verbatim>\<open>data_args.splits\<close> is used with \<^verbatim>\<open>in\<close> and with \<^verbatim>\<open>!=\<close>. Both operators depend on
  whether the value is a string (substring test; string comparison) or a list of strings
  (membership; a list is never equal to a string).
\<close>

datatype splits = Str string | Strs "string list"

fun contains :: "string \<Rightarrow> string \<Rightarrow> bool" where
  "contains sub [] = (sub = [])"
| "contains sub (c # cs) = (prefix sub (c # cs) \<or> contains sub cs)"

fun py_in :: "string \<Rightarrow> splits \<Rightarrow> bool" where
  "py_in x (Str s) = contains x s"
| "py_in x (Strs xs) = (x \<in> set xs)"

text \<open>
  A cell of a dataset row is a conversation (messages with a role and a content) or a text.
\<close>

type_synonym message = "string \<times> string"

datatype cell = Conversation "message list" | Text string

type_synonym row = "(string \<times> cell) list"

text \<open>
  The objects that end up in \<^verbatim>\<open>raw_datasets\<close>: \<^verbatim>\<open>None\<close>, a \<^verbatim>\<open>Dataset\<close> (its rows), a
  \<^verbatim>\<open>DatasetDict\<close> (its splits by name) and a plain list (a column of a \<^verbatim>\<open>Dataset\<close>).
\<close>

datatype obj =
    PyNone
  | Dataset "row list"
  | DatasetDict "(string \<times> row list) list"
  | PyList "cell list"

datatype error =
    ValueError splits
  | KeyError string
  | AttributeError string
  | TypeError
  | LibraryError

subsection \<open>Runs: the calls made and the outcome\<close>

type_synonym ('c, 'a) run = "'c list \<times> (error + 'a)"

definition ret :: "'a \<Rightarrow> ('c, 'a) run" where
  "ret x = ([], Inr x)"

definition raise :: "error \<Rightarrow> ('c, 'a) run" where
  "raise e = ([], Inl e)"

definition log :: "'c \<Rightarrow> ('c, unit) run" where
  "log c = ([c], Inr ())"

definition call :: "'c \<Rightarrow> 'a option \<Rightarrow> ('c, 'a) run" where
  "call c answer = ([c], case answer of None \<Rightarrow> Inl LibraryError | Some x \<Rightarrow> Inr x)"

definition then_run :: "('c, 'a) run \<Rightarrow> ('a \<Rightarrow> ('c, 'b) run) \<Rightarrow> ('c, 'b) run" where
  "then_run m f =
     (case m of
        (t, Inl e) \<Rightarrow> (t, Inl e)
      | (t, Inr x) \<Rightarrow> (case f x of (t', r) \<Rightarrow> (t @ t', r)))"

definition calls :: "('c, 'a) run \<Rightarrow> 'c list" where
  "calls m = fst m"

definition outcome :: "('c, 'a) run \<Rightarrow> error + 'a" where
  "outcome m = snd m"

subsection \<open>The dataset library\<close>

datatype data_call =
    Load_from_disk string
  | Load_dataset string
  | Apply_chat_template cell
  | Call_map obj
  | Call_len obj
  | Print_dataset_size nat

text \<open>
  \<open>Call_map x\<close> is the evaluation of \<^verbatim>\<open>x.map(preprocess, batched=False)\<close> on the receiver
  \<open>x\<close>, \<open>Call_len x\<close> that of \<^verbatim>\<open>len(x)\<close>, \<open>Print_dataset_size n\<close> the print of
  \<^verbatim>\<open>f"Dataset size: {n}"\<close>, and \<open>Apply_chat_template m\<close> the call
  \<^verbatim>\<open>tokenizer.apply_chat_template(m, tokenize=False)\<close>.
\<close>

record data_world =
  load_from_disk :: "string \<Rightarrow> obj option"
  load_dataset :: "string \<Rightarrow> obj option"
  dataset_column :: "row list \<Rightarrow> string \<Rightarrow> obj option"

text \<open>
  \<open>dataset_column rows k\<close> is what indexing a \<^verbatim>\<open>Dataset\<close> with a string answers (the
  library's column access), \<open>None\<close> when it raises its \<^verbatim>\<open>KeyError\<close>.
\<close>

type_synonym tokenizer = "cell \<Rightarrow> string option"

record data_args =
  dataset_name :: string
  is_local_data :: bool
  splits :: splits
  apply_chat_template :: string
  remove_system_message :: bool

text \<open>Indexing the loaded dataset with a split name: \<^verbatim>\<open>dataset["train"]\<close>.\<close>

fun getitem :: "data_world \<Rightarrow> obj \<Rightarrow> string \<Rightarrow> (data_call, obj) run" where
  "getitem w (DatasetDict kvs) k =
     (case map_of kvs k of None \<Rightarrow> raise (KeyError k) | Some rows \<Rightarrow> ret (Dataset rows))"
| "getitem w (Dataset rows) k =
     (case dataset_column w rows k of None \<Rightarrow> raise (KeyError k) | Some x \<Rightarrow> ret x)"
| "getitem w PyNone k = raise TypeError"
| "getitem w (PyList xs) k = raise TypeError"

text \<open>Reading a key of the dictionary \<^verbatim>\<open>raw_datasets\<close>, and of a row.\<close>

definition lookup :: "(string \<rightharpoonup> 'a) \<Rightarrow> string \<Rightarrow> ('c, 'a) run" where
  "lookup d k = (case d k of None \<Rightarrow> raise (KeyError k) | Some x \<Rightarrow> ret x)"

fun py_len :: "obj \<Rightarrow> (data_call, nat) run" where
  "py_len PyNone = then_run (log (Call_len PyNone)) (\<lambda>_. raise TypeError)"
| "py_len (Dataset rows) = then_run (log (Call_len (Dataset rows))) (\<lambda>_. ret (length rows))"
| "py_len (DatasetDict kvs) =
     then_run (log (Call_len (DatasetDict kvs))) (\<lambda>_. ret (length kvs))"
| "py_len (PyList xs) = then_run (log (Call_len (PyList xs))) (\<lambda>_. ret (length xs))"

text \<open>
  Modelled from the spec: \<^verbatim>\<open>Dataset.map\<close> and \<^verbatim>\<open>DatasetDict.map\<close> belong to the datasets
  library and are not in the repository. With \<^verbatim>\<open>batched=False\<close> the function is called on
  each row in order and the dictionary it returns updates that row (the spec: "rewriting each
  example's chosen/rejected conversation fields"); on a \<^verbatim>\<open>DatasetDict\<close> every split is
  mapped. \<^verbatim>\<open>None\<close> and a list have no \<^verbatim>\<open>map\<close> attribute.
\<close>

definition dict_update :: "row \<Rightarrow> row \<Rightarrow> row" where
  "dict_update r upd = fold (\<lambda>(k, v). AList.update k v) upd r"

fun map_rows :: "(row \<Rightarrow> (data_call, row) run) \<Rightarrow> row list \<Rightarrow> (data_call, row list) run" where
  "map_rows f [] = ret []"
| "map_rows f (r # rs) =
     then_run (f r) (\<lambda>upd.
     then_run (map_rows f rs) (\<lambda>rs'.
     ret (dict_update r upd # rs')))"

fun map_splits ::
  "(row \<Rightarrow> (data_call, row) run) \<Rightarrow> (string \<times> row list) list
     \<Rightarrow> (data_call, (string \<times> row list) list) run" where
  "map_splits f [] = ret []"
| "map_splits f ((k, rows) # kvs) =
     then_run (map_rows f rows) (\<lambda>rows'.
     then_run (map_splits f kvs) (\<lambda>kvs'.
     ret ((k, rows') # kvs')))"

fun obj_map :: "(row \<Rightarrow> (data_call, row) run) \<Rightarrow> obj \<Rightarrow> (data_call, obj) run" where
  "obj_map f PyNone = raise (AttributeError ''map'')"
| "obj_map f (PyList xs) = raise (AttributeError ''map'')"
| "obj_map f (Dataset rows) = then_run (map_rows f rows) (\<lambda>rows'. ret (Dataset rows'))"
| "obj_map f (DatasetDict kvs) =
     then_run (map_splits f kvs) (\<lambda>kvs'. ret (DatasetDict kvs'))"

definition call_map :: "(row \<Rightarrow> (data_call, row) run) \<Rightarrow> obj \<Rightarrow> (data_call, obj) run" where
  "call_map f x = then_run (log (Call_map x)) (\<lambda>_. obj_map f x)"

subsection \<open>create_dpo_datasets\<close>

definition system_message :: string where
  "system_message =
     ''<|im_start|>system'' @ [CHR 0x0A]
     @ ''You are Qwen, created by Alibaba Cloud. You are a helpful assistant.<|im_end|>''
     @ [CHR 0x0A]"

definition to_apply_chat_template :: "cell \<Rightarrow> tokenizer \<Rightarrow> bool \<Rightarrow> (data_call, string) run" where
  "to_apply_chat_template messages tokenizer remove_system_message' =
     then_run (call (Apply_chat_template messages) (tokenizer messages)) (\<lambda>text.
     ret (if remove_system_message' then
            (if prefix system_message text then drop (length system_message) text else text)
          else text))"

definition preprocess :: "tokenizer \<Rightarrow> data_args \<Rightarrow> row \<Rightarrow> (data_call, row) run" where
  "preprocess tokenizer data_args r =
     then_run (lookup (map_of r) ''chosen'') (\<lambda>c.
     then_run (to_apply_chat_template c tokenizer (remove_system_message data_args)) (\<lambda>chosen.
     then_run (lookup (map_of r) ''rejected'') (\<lambda>j.
     then_run (to_apply_chat_template j tokenizer (remove_system_message data_args)) (\<lambda>rejected.
     ret [(''chosen'', Text chosen), (''rejected'', Text rejected)]))))"

text \<open>Lines 74 to 81: the loader is chosen by \<^verbatim>\<open>is_local_data\<close> and called on the name.\<close>

definition load :: "data_world \<Rightarrow> data_args \<Rightarrow> (data_call, obj) run" where
  "load w data_args =
     (if is_local_data data_args
      then call (Load_from_disk (dataset_name data_args))
                (load_from_disk w (dataset_name data_args))
      else call (Load_dataset (dataset_name data_args))
                (load_dataset w (dataset_name data_args)))"

text \<open>Lines 83 to 91: the four \<^verbatim>\<open>if\<close> statements that fill \<^verbatim>\<open>raw_datasets\<close>.\<close>

definition select_splits ::
  "data_world \<Rightarrow> data_args \<Rightarrow> obj \<Rightarrow> (data_call, string \<rightharpoonup> obj) run" where
  "select_splits w data_args dataset =
     then_run (if py_in ''train'' (splits data_args)
               then then_run (getitem w dataset ''train'') (\<lambda>d. ret (Map.empty(''train'' \<mapsto> d)))
               else ret Map.empty) (\<lambda>raw1.
     then_run (if py_in ''test'' (splits data_args)
               then then_run (getitem w dataset ''test'') (\<lambda>d. ret (raw1(''test'' \<mapsto> d)))
               else ret raw1) (\<lambda>raw2.
     then_run (ret (if py_in ''none'' (splits data_args)
                    then raw2(''train'' \<mapsto> dataset, ''test'' \<mapsto> PyNone)
                    else raw2)) (\<lambda>raw3.
     if \<not> py_in ''train'' (splits data_args) \<and> \<not> py_in ''test'' (splits data_args)
        \<and> \<not> py_in ''none'' (splits data_args)
     then raise (ValueError (splits data_args))
     else ret raw3)))"

text \<open>Lines 103 to 106: the preprocessing, when a chat template is asked for.\<close>

definition apply_preprocessing ::
  "tokenizer \<Rightarrow> data_args \<Rightarrow> (string \<rightharpoonup> obj) \<Rightarrow> (data_call, string \<rightharpoonup> obj) run" where
  "apply_preprocessing tokenizer data_args raw =
     (if apply_chat_template data_args \<noteq> ''none'' then
        then_run (lookup raw ''train'') (\<lambda>tr.
        then_run (call_map (preprocess tokenizer data_args) tr) (\<lambda>tr'.
        if splits data_args \<noteq> Str ''none'' then
          then_run (lookup (raw(''train'' \<mapsto> tr')) ''test'') (\<lambda>te.
          then_run (call_map (preprocess tokenizer data_args) te) (\<lambda>te'.
          ret (raw(''train'' \<mapsto> tr', ''test'' \<mapsto> te'))))
        else ret (raw(''train'' \<mapsto> tr'))))
      else ret raw)"

text \<open>Lines 110 to 114: the two prints of the sizes.\<close>

definition print_sizes :: "data_args \<Rightarrow> (string \<rightharpoonup> obj) \<Rightarrow> (data_call, unit) run" where
  "print_sizes data_args raw =
     then_run (lookup raw ''train'') (\<lambda>tr.
     then_run (py_len tr) (\<lambda>n.
     then_run (log (Print_dataset_size n)) (\<lambda>_.
     if splits data_args \<noteq> Str ''none'' then
       then_run (lookup raw ''test'') (\<lambda>te.
       then_run (py_len te) (\<lambda>m.
       log (Print_dataset_size m)))
     else ret ())))"

definition create_dpo_datasets ::
  "data_world \<Rightarrow> tokenizer \<Rightarrow> data_args \<Rightarrow> (data_call, obj \<times> obj) run" where
  "create_dpo_datasets w tokenizer data_args =
     then_run (load w data_args) (\<lambda>dataset.
     then_run (select_splits w data_args dataset) (\<lambda>raw0.
     then_run (apply_preprocessing tokenizer data_args raw0) (\<lambda>raw_datasets.
     then_run (print_sizes data_args raw_datasets) (\<lambda>_.
     then_run (lookup raw_datasets ''train'') (\<lambda>tr.
     then_run (lookup raw_datasets ''test'') (\<lambda>te.
     ret (tr, te)))))))"

subsection \<open>Notions used in the statements\<close>

text \<open>
  \<open>preprocessed tokenizer data_args x y\<close>: \<open>y\<close> is what lines 103 to 106 make of the selected
  object \<open>x\<close>, that is \<open>x\<close> itself when no chat template is asked for and the result of
  \<^verbatim>\<open>x.map(preprocess, batched=False)\<close> otherwise.
\<close>

definition preprocessed :: "tokenizer \<Rightarrow> data_args \<Rightarrow> obj \<Rightarrow> obj \<Rightarrow> bool" where
  "preprocessed tokenizer data_args x y =
     (if apply_chat_template data_args \<noteq> ''none''
      then outcome (obj_map (preprocess tokenizer data_args) x) = Inr y
      else y = x)"

text \<open>
  \<open>rowwise R x y\<close>: \<open>x\<close> and \<open>y\<close> have the same shape (the same splits in the same order, the
  same number of rows in each) and \<open>R\<close> holds between every row of \<open>x\<close> and the row of \<open>y\<close> at
  the same position.
\<close>

fun rowwise :: "(row \<Rightarrow> row \<Rightarrow> bool) \<Rightarrow> obj \<Rightarrow> obj \<Rightarrow> bool" where
  "rowwise R (Dataset rs) (Dataset rs') = list_all2 R rs rs'"
| "rowwise R (DatasetDict kvs) (DatasetDict kvs') =
     list_all2 (\<lambda>(k, rs) (k', rs'). k = k' \<and> list_all2 R rs rs') kvs kvs'"
| "rowwise R PyNone PyNone = True"
| "rowwise R x y = False"

fun row_counts :: "obj \<Rightarrow> nat list" where
  "row_counts (Dataset rs) = [length rs]"
| "row_counts (DatasetDict kvs) = map (\<lambda>(k, rs). length rs) kvs"
| "row_counts x = []"

text \<open>
  \<open>rendered tokenizer data_args k r r'\<close>: field \<open>k\<close> of the row \<open>r'\<close> is the text that
  \<open>to_apply_chat_template\<close> returns for field \<open>k\<close> of the row \<open>r\<close>.
\<close>

definition rendered :: "tokenizer \<Rightarrow> data_args \<Rightarrow> string \<Rightarrow> row \<Rightarrow> row \<Rightarrow> bool" where
  "rendered tokenizer data_args k r r' =
     (case map_of r k of
        None \<Rightarrow> False
      | Some c \<Rightarrow>
          (case outcome (to_apply_chat_template c tokenizer (remove_system_message data_args)) of
             Inl e \<Rightarrow> False
           | Inr text \<Rightarrow> map_of r' k = Some (Text text)))"

fun is_load :: "data_call \<Rightarrow> bool" where
  "is_load (Load_from_disk n) = True"
| "is_load (Load_dataset n) = True"
| "is_load c = False"

fun is_render :: "data_call \<Rightarrow> bool" where
  "is_render (Apply_chat_template c) = True"
| "is_render c = False"

subsection \<open>A small dataset\<close>

definition example_row :: row where
  "example_row =
     [(''prompt'', Text ''p''),
      (''chosen'', Conversation [(''user'', ''q''), (''assistant'', ''a'')]),
      (''rejected'', Conversation [(''user'', ''q''), (''assistant'', ''b'')])]"

definition example_dataset :: obj where
  "example_dataset = DatasetDict [(''train'', [example_row]), (''test'', [])]"

definition example_world :: data_world where
  "example_world =
     \<lparr>load_from_disk = (\<lambda>n. if n = ''data'' then Some example_dataset else None),
      load_dataset = (\<lambda>n. None),
      dataset_column = (\<lambda>rows k. None)\<rparr>"

definition example_tokenizer :: tokenizer where
  "example_tokenizer c =
     (case c of Conversation ms \<Rightarrow> Some (concat (map snd ms)) | Text t \<Rightarrow> None)"

definition example_args :: "splits \<Rightarrow> string \<Rightarrow> data_args" where
  "example_args s t =
     \<lparr>dataset_name = ''data'', is_local_data = True, splits = s,
      apply_chat_template = t, remove_system_message = True\<rparr>"

definition example_mapped_row :: row where
  "example_mapped_row =
     [(''prompt'', Text ''p''), (''chosen'', Text ''qa''), (''rejected'', Text ''qb'')]"

section \<open>Model preparation\<close>

subsection \<open>Constants and special tokens\<close>

definition quote :: string where
  "quote = [CHR 0x27]"

definition newline :: string where
  "newline = [CHR 0x0A]"

definition DEFAULT_CHATML_CHAT_TEMPLATE :: string where
  "DEFAULT_CHATML_CHAT_TEMPLATE =
    ''{% for message in messages %}'' @ newline @ ''{{'' @ quote @ ''<|im_start|>'' @
    quote @ '' + message['' @ quote @ ''role'' @ quote @ ''] + '' @ quote @ newline @
    quote @ '' + message['' @ quote @ ''content'' @ quote @ ''] + '' @ quote @
    ''<|im_end|>'' @ quote @ '' + '' @ quote @ newline @ quote @
    ''}}{% if loop.last and add_generation_prompt %}{{'' @ quote @
    ''<|im_start|>assistant'' @ newline @ quote @ '' }}{% endif %}{% endfor %}''"

definition DEFAULT_ZEPHYR_CHAT_TEMPLATE :: string where
  "DEFAULT_ZEPHYR_CHAT_TEMPLATE =
    ''{% for message in messages %}'' @ newline @ ''{% if message['' @ quote @ ''role'' @
    quote @ ''] == '' @ quote @ ''user'' @ quote @ '' %}'' @ newline @ ''{{ '' @ quote @
    ''<|user|>'' @ newline @ quote @ '' + message['' @ quote @ ''content'' @ quote @
    ''] + eos_token }}'' @ newline @ ''{% elif message['' @ quote @ ''role'' @ quote @
    ''] == '' @ quote @ ''system'' @ quote @ '' %}'' @ newline @ ''{{ '' @ quote @
    ''<|system|>'' @ newline @ quote @ '' + message['' @ quote @ ''content'' @ quote @
    ''] + eos_token }}'' @ newline @ ''{% elif message['' @ quote @ ''role'' @ quote @
    ''] == '' @ quote @ ''assistant'' @ quote @ '' %}'' @ newline @ ''{{ '' @ quote @
    ''<|assistant|>'' @ newline @ quote @ ''  + message['' @ quote @ ''content'' @ quote @
    ''] + eos_token }}'' @ newline @ ''{% endif %}'' @ newline @
    ''{% if loop.last and add_generation_prompt %}'' @ newline @ ''{{ '' @ quote @
    ''<|assistant|>'' @ quote @ '' }}'' @ newline @ ''{% endif %}'' @ newline @
    ''{% endfor %}''"

text \<open>
  The two enumerations have the same member names, in this order. Both mix in \<^verbatim>\<open>str\<close>, so
  the value of a member is the \<^verbatim>\<open>str\<close> of what the class body assigns: the value of
  \<^verbatim>\<open>ChatmlSpecialTokens.bos_token\<close>, assigned \<^verbatim>\<open>None\<close>, is the string \<^verbatim>\<open>"None"\<close>.
\<close>

datatype member = User | Assistant | System | Eos_token | Bos_token | Pad_token

definition members :: "member list" where
  "members = [User, Assistant, System, Eos_token, Bos_token, Pad_token]"

fun ZephyrSpecialTokens :: "member \<Rightarrow> string" where
  "ZephyrSpecialTokens User = ''<|user|>''"
| "ZephyrSpecialTokens Assistant = ''<|assistant|>''"
| "ZephyrSpecialTokens System = ''<|system|>''"
| "ZephyrSpecialTokens Eos_token = ''</s>''"
| "ZephyrSpecialTokens Bos_token = ''<s>''"
| "ZephyrSpecialTokens Pad_token = ''<pad>''"

fun ChatmlSpecialTokens :: "member \<Rightarrow> string" where
  "ChatmlSpecialTokens User = ''<|im_start|>user''"
| "ChatmlSpecialTokens Assistant = ''<|im_start|>assistant''"
| "ChatmlSpecialTokens System = ''<|im_start|>system''"
| "ChatmlSpecialTokens Eos_token = ''<|im_end|>''"
| "ChatmlSpecialTokens Bos_token = ''None''"
| "ChatmlSpecialTokens Pad_token = ''<|endoftext|>''"

text \<open>
  \<^verbatim>\<open>list(cls)\<close> is \<^verbatim>\<open>[c.value for c in cls]\<close>. Iterating an \<^verbatim>\<open>Enum\<close> class yields its members
  in definition order without the aliases, that is without a member whose value an earlier
  member already has.
\<close>

fun without_aliases :: "(member \<Rightarrow> string) \<Rightarrow> member list \<Rightarrow> member list" where
  "without_aliases cls [] = []"
| "without_aliases cls (m # ms) = m # without_aliases cls (filter (\<lambda>n. cls n \<noteq> cls m) ms)"

definition list_values :: "(member \<Rightarrow> string) \<Rightarrow> string list" where
  "list_values cls = map cls (without_aliases cls members)"

subsection \<open>Arguments, configurations and library calls\<close>

datatype dtype =
  Float16 | Bfloat16 | Float32 | Float64 | Uint8 | Int8 | Int16 | Int32 | Int64 | Bool

fun is_floating_point :: "dtype \<Rightarrow> bool" where
  "is_floating_point Float16 = True"
| "is_floating_point Bfloat16 = True"
| "is_floating_point Float32 = True"
| "is_floating_point Float64 = True"
| "is_floating_point d = False"

text \<open>
  The two shapes of the call of \<^verbatim>\<open>BitsAndBytesConfig\<close>: with the keyword arguments
  \<^verbatim>\<open>load_in_4bit\<close>, \<^verbatim>\<open>bnb_4bit_quant_type\<close>, \<^verbatim>\<open>bnb_4bit_compute_dtype\<close>,
  \<^verbatim>\<open>bnb_4bit_use_double_quant\<close>, \<^verbatim>\<open>bnb_4bit_quant_storage\<close>, in this order, or with
  \<^verbatim>\<open>load_in_8bit\<close> alone.
\<close>

datatype bnb_config =
    BitsAndBytesConfig_4bit bool string dtype bool dtype
  | BitsAndBytesConfig_8bit bool

datatype target_modules = Module_names "string list" | Module_spec string

text \<open>
  \<^verbatim>\<open>LoraConfig(lora_alpha, lora_dropout, r, bias, task_type, target_modules)\<close>; the dropout is
  a float that is only passed on, of a type left open.
\<close>

datatype 'f lora_config = LoraConfig int 'f int string string target_modules

record 'f model_args =
  model_name_or_path :: string
  use_4bit_quantization :: bool
  use_8bit_quantization :: bool
  bnb_4bit_quant_type :: string
  bnb_4bit_compute_dtype :: string
  bnb_4bit_quant_storage_dtype :: string
  use_nested_quant :: bool
  use_flash_attn :: bool
  use_peft_lora :: bool
  lora_alpha :: int
  lora_dropout :: 'f
  lora_r :: int
  lora_target_modules :: string

text \<open>
  The keyword arguments \<^verbatim>\<open>pad_token\<close>, \<^verbatim>\<open>bos_token\<close>, \<^verbatim>\<open>eos_token\<close> and
  \<^verbatim>\<open>additional_special_tokens\<close> of the first call of \<^verbatim>\<open>AutoTokenizer.from_pretrained\<close>.
\<close>

record special_kwargs =
  pad_token :: string
  bos_token :: string
  eos_token :: string
  additional_special_tokens :: "string list"

text \<open>
  The calls, with their arguments in the order of the source:
  \<^verbatim>\<open>AutoModelForCausalLM.from_pretrained(name, quantization_config, trust_remote_code,
  attn_implementation, torch_dtype)\<close>, \<^verbatim>\<open>AutoTokenizer.from_pretrained(name, [the special
  keyword arguments,] trust_remote_code)\<close>, and
  \<^verbatim>\<open>model.resize_token_embeddings(n, pad_to_multiple_of[, mean_resizing])\<close>.
\<close>

datatype prep_call =
    Getattr_torch string
  | Get_device_capability
  | Print string
  | Model_from_pretrained string "bnb_config option" bool string dtype
  | Tokenizer_from_pretrained string "special_kwargs option" bool
  | Version_at_least string string
  | Environ_get string string
  | Resize_token_embeddings nat nat "bool option"

record ('m, 't) prep_world =
  getattr_torch :: "string \<Rightarrow> dtype option"
  get_device_capability :: "(nat \<times> nat) option"
  model_from_pretrained :: "string \<Rightarrow> bnb_config option \<Rightarrow> bool \<Rightarrow> string \<Rightarrow> dtype \<Rightarrow> 'm option"
  tokenizer_from_pretrained :: "string \<Rightarrow> special_kwargs option \<Rightarrow> bool \<Rightarrow> 't option"
  tokenizer_len :: "'t \<Rightarrow> nat"
  resize_token_embeddings :: "'m \<Rightarrow> nat \<Rightarrow> nat \<Rightarrow> bool option \<Rightarrow> unit option"
  transformers_version :: string
  version_at_least :: "string \<Rightarrow> string \<Rightarrow> bool option"
  environ :: "string \<rightharpoonup> string"

text \<open>
  \<open>version_at_least v u\<close> is \<^verbatim>\<open>packaging.version.parse(v) >= packaging.version.parse(u)\<close>,
  \<open>None\<close> when a parse raises; \<open>environ\<close> is \<^verbatim>\<open>os.environ\<close>.

  The tokenizer returned: the object the library answered and the chat template assigned to
  it afterwards, if any.
\<close>

record 't prepared_tokenizer =
  loaded :: 't
  chat_template :: "string option"

subsection \<open>Strings\<close>

text \<open>\<^verbatim>\<open>s.split(",")\<close>: the pieces between the commas, at least one piece.\<close>

fun split :: "char \<Rightarrow> string \<Rightarrow> string list" where
  "split sep [] = [[]]"
| "split sep (c # cs) =
     (if c = sep then [] # split sep cs
      else (case split sep cs of [] \<Rightarrow> [[c]] | w # ws \<Rightarrow> (c # w) # ws))"

text \<open>
  \<^verbatim>\<open>s.lower()\<close> on the letters \<^verbatim>\<open>A\<close> to \<^verbatim>\<open>Z\<close>. Python lowers other letters too, but none of
  them to a letter of \<^verbatim>\<open>"true"\<close>, the only string the result is compared with.
\<close>

definition lower :: "string \<Rightarrow> string" where
  "lower s =
     map (\<lambda>c. case map_of (zip ''ABCDEFGHIJKLMNOPQRSTUVWXYZ'' ''abcdefghijklmnopqrstuvwxyz'') c of
               None \<Rightarrow> c
             | Some l \<Rightarrow> l) s"

subsection \<open>create_and_prepare_model_for_dpo\<close>

text \<open>Lines 121 to 146: the quantization configuration and the storage dtype.\<close>

definition quantization ::
  "('m, 't) prep_world \<Rightarrow> 'f model_args \<Rightarrow> (prep_call, bnb_config option \<times> dtype option) run" where
  "quantization w args =
     (if use_4bit_quantization args then
        then_run (call (Getattr_torch (bnb_4bit_compute_dtype args))
                    (getattr_torch w (bnb_4bit_compute_dtype args))) (\<lambda>compute_dtype.
        then_run (call (Getattr_torch (bnb_4bit_quant_storage_dtype args))
                    (getattr_torch w (bnb_4bit_quant_storage_dtype args))) (\<lambda>quant_storage_dtype.
        then_run (if compute_dtype = Float16 \<and> use_4bit_quantization args then
                    then_run (call Get_device_capability (get_device_capability w)) (\<lambda>(major, _).
                    if major \<ge> 8 then
                      then_run (log (Print (replicate 80 CHR ''=''))) (\<lambda>_.
                      then_run (log (Print
                        ''Your GPU supports bfloat16, you can accelerate training with the argument --bf16''))
                        (\<lambda>_.
                      log (Print (replicate 80 CHR ''=''))))
                    else ret ())
                  else ret ()) (\<lambda>_.
        ret (Some (BitsAndBytesConfig_4bit (use_4bit_quantization args) (bnb_4bit_quant_type args)
                     compute_dtype (use_nested_quant args) quant_storage_dtype),
             Some quant_storage_dtype))))
      else if use_8bit_quantization args then
        ret (Some (BitsAndBytesConfig_8bit (use_8bit_quantization args)), None)
      else ret (None, None))"

text \<open>Lines 149 to 151.\<close>

definition choose_torch_dtype :: "dtype option \<Rightarrow> dtype" where
  "choose_torch_dtype quant_storage_dtype =
     (case quant_storage_dtype of
        None \<Rightarrow> Float32
      | Some d \<Rightarrow> if is_floating_point d then d else Float32)"

text \<open>Lines 154 to 160.\<close>

definition load_model ::
  "('m, 't) prep_world \<Rightarrow> 'f model_args \<Rightarrow> bnb_config option \<Rightarrow> dtype \<Rightarrow> (prep_call, 'm) run" where
  "load_model w args bnb_config torch_dtype =
     call (Model_from_pretrained (model_name_or_path args) bnb_config True
             (if use_flash_attn args then ''flash_attention_2'' else ''eager'') torch_dtype)
          (model_from_pretrained w (model_name_or_path args) bnb_config True
             (if use_flash_attn args then ''flash_attention_2'' else ''eager'') torch_dtype)"

text \<open>Lines 163 to 174.\<close>

definition peft_configuration :: "'f model_args \<Rightarrow> 'f lora_config option" where
  "peft_configuration args =
     (if use_peft_lora args then
        Some (LoraConfig (lora_alpha args) (lora_dropout args) (lora_r args) ''none'' ''CAUSAL_LM''
                (if lora_target_modules args \<noteq> ''all-linear''
                 then Module_names (split CHR '','' (lora_target_modules args))
                 else Module_spec (lora_target_modules args)))
      else None)"

text \<open>Lines 177 to 184: the enumeration and the template, or \<^verbatim>\<open>None\<close> for both.\<close>

definition template_choice :: "data_args \<Rightarrow> ((member \<Rightarrow> string) \<times> string) option" where
  "template_choice data_args =
     (if apply_chat_template data_args = ''chatml''
      then Some (ChatmlSpecialTokens, DEFAULT_CHATML_CHAT_TEMPLATE)
      else if apply_chat_template data_args = ''zephyr''
      then Some (ZephyrSpecialTokens, DEFAULT_ZEPHYR_CHAT_TEMPLATE)
      else None)"

text \<open>Lines 186 to 205.\<close>

definition prepare_tokenizer ::
  "('m, 't) prep_world \<Rightarrow> 'f model_args \<Rightarrow> data_args \<Rightarrow> bnb_config option \<Rightarrow> 'm
     \<Rightarrow> (prep_call, 't prepared_tokenizer) run" where
  "prepare_tokenizer w args data_args bnb_config model =
     (case template_choice data_args of
        Some (special_tokens, template) \<Rightarrow>
          then_run (call (Tokenizer_from_pretrained (model_name_or_path args)
                      (Some \<lparr>pad_token = special_tokens Pad_token,
                             bos_token = special_tokens Bos_token,
                             eos_token = special_tokens Eos_token,
                             additional_special_tokens = list_values special_tokens\<rparr>) True)
                    (tokenizer_from_pretrained w (model_name_or_path args)
                      (Some \<lparr>pad_token = special_tokens Pad_token,
                             bos_token = special_tokens Bos_token,
                             eos_token = special_tokens Eos_token,
                             additional_special_tokens = list_values special_tokens\<rparr>) True))
            (\<lambda>tokenizer.
          then_run (call (Version_at_least (transformers_version w) ''4.46.0'')
                      (version_at_least w (transformers_version w) ''4.46.0''))
            (\<lambda>uses_transformers_4_46.
          then_run (log (Environ_get ''ACCELERATE_USE_FSDP'' ''''))
            (\<lambda>_.
          then_run (ret (lower (case environ w ''ACCELERATE_USE_FSDP'' of
                                  None \<Rightarrow> '''' | Some v \<Rightarrow> v) = ''true''))
            (\<lambda>uses_fsdp.
          then_run (if bnb_config \<noteq> None \<and> uses_fsdp \<and> uses_transformers_4_46
                    then call (Resize_token_embeddings (tokenizer_len w tokenizer) 8 (Some False))
                           (resize_token_embeddings w model (tokenizer_len w tokenizer) 8
                              (Some False))
                    else call (Resize_token_embeddings (tokenizer_len w tokenizer) 8 None)
                           (resize_token_embeddings w model (tokenizer_len w tokenizer) 8 None))
            (\<lambda>_.
          ret \<lparr>loaded = tokenizer, chat_template = Some template\<rparr>)))))
      | None \<Rightarrow>
          then_run (call (Tokenizer_from_pretrained (model_name_or_path args) None True)
                    (tokenizer_from_pretrained w (model_name_or_path args) None True))
            (\<lambda>tokenizer.
          ret \<lparr>loaded = tokenizer, chat_template = None\<rparr>))"

definition create_and_prepare_model_for_dpo ::
  "('m, 't) prep_world \<Rightarrow> 'f model_args \<Rightarrow> data_args \<Rightarrow> 'x
     \<Rightarrow> (prep_call, 'm \<times> 'f lora_config option \<times> 't prepared_tokenizer) run" where
  "create_and_prepare_model_for_dpo w args data_args training_args =
     then_run (quantization w args) (\<lambda>(bnb_config, quant_storage_dtype).
     then_run (load_model w args bnb_config (choose_torch_dtype quant_storage_dtype)) (\<lambda>model.
     then_run (ret (peft_configuration args)) (\<lambda>peft_config.
     then_run (prepare_tokenizer w args data_args bnb_config model) (\<lambda>tokenizer.
     ret (model, peft_config, tokenizer)))))"

subsection \<open>Notions used in the statements\<close>




text \<open>\<^verbatim>\<open>sep.join(pieces)\<close>, to say what \<open>split\<close> computes.\<close>

fun join :: "char \<Rightarrow> string list \<Rightarrow> string" where
  "join sep [] = []"
| "join sep [w] = w"
| "join sep (w # v # ws) = w @ sep # join sep (v # ws)"

subsection \<open>A small configuration\<close>

definition example_prep_world :: "(string, string) prep_world" where
  "example_prep_world =
     \<lparr>getattr_torch =
        (\<lambda>n. if n = ''float16'' then Some Float16
             else if n = ''bfloat16'' then Some Bfloat16
             else if n = ''uint8'' then Some Uint8 else None),
      get_device_capability = Some (8, 0),
      model_from_pretrained = (\<lambda>n q t a d. Some (''model of '' @ n)),
      tokenizer_from_pretrained = (\<lambda>n k t. Some (''tokenizer of '' @ n)),
      tokenizer_len = (\<lambda>t. 151665),
      resize_token_embeddings = (\<lambda>m n p r. Some ()),
      transformers_version = ''4.46.1'',
      version_at_least = (\<lambda>v u. Some True),
      environ = [''ACCELERATE_USE_FSDP'' \<mapsto> ''True'']\<rparr>"

definition example_model_args :: "bool \<Rightarrow> bool \<Rightarrow> string model_args" where
  "example_model_args four eight =
     \<lparr>model_name_or_path = ''Qwen'',
      use_4bit_quantization = four,
      use_8bit_quantization = eight,
      bnb_4bit_quant_type = ''nf4'',
      bnb_4bit_compute_dtype = ''bfloat16'',
      bnb_4bit_quant_storage_dtype = ''uint8'',
      use_nested_quant = True,
      use_flash_attn = False,
      use_peft_lora = True,
      lora_alpha = 16,
      lora_dropout = ''0.1'',
      lora_r = 8,
      lora_target_modules = ''q_proj,v_proj''\<rparr>"

section \<open>Properties\<close>

subsection \<open>Runs\<close>

lemma outcome_ret [simp]: "outcome (ret x) = Inr x"
  and calls_ret [simp]: "calls (ret x) = []"
  and outcome_raise [simp]: "outcome (raise e) = Inl e"
  and calls_raise [simp]: "calls (raise e) = []"
  and outcome_log [simp]: "outcome (log c) = Inr ()"
  and calls_log [simp]: "calls (log c) = [c]"
  and calls_call [simp]: "calls (call c a) = [c]"
  by (simp_all add: outcome_def calls_def ret_def raise_def log_def call_def)

lemma outcome_call [simp]:
  "outcome (call c a) = (case a of None \<Rightarrow> Inl LibraryError | Some x \<Rightarrow> Inr x)"
  by (simp add: outcome_def call_def)

lemma outcome_then_run:
  "outcome (then_run m f) = (case outcome m of Inl e \<Rightarrow> Inl e | Inr x \<Rightarrow> outcome (f x))"
  by (cases m) (auto simp: outcome_def then_run_def split: sum.splits prod.splits)

lemma calls_then_run:
  "calls (then_run m f) = calls m @ (case outcome m of Inl e \<Rightarrow> [] | Inr x \<Rightarrow> calls (f x))"
  by (cases m) (auto simp: outcome_def calls_def then_run_def split: sum.splits prod.splits)

lemma outcome_then_run_Inr [simp]:
  "outcome (then_run m f) = Inr y \<longleftrightarrow> (\<exists>x. outcome m = Inr x \<and> outcome (f x) = Inr y)"
  by (simp add: outcome_then_run split: sum.splits)

lemma outcome_lookup_Inr [simp]: "outcome (lookup d k) = Inr x \<longleftrightarrow> d k = Some x"
  by (simp add: lookup_def split: option.splits)

subsection \<open>The system message\<close>

text \<open>
  C10. Given the text that the tokenizer renders for a conversation: with
  \<^verbatim>\<open>remove_system_message\<close> false, \<open>to_apply_chat_template\<close> returns the rendering as it
  is; with the flag true, it returns the rendering as it is when the rendering does not
  start with the system message, and when it does, it returns exactly what follows that
  first occurrence (so a system message further inside the text stays).
\<close>

theorem strip_system_message:
  "tokenizer messages = Some text \<Longrightarrow>
     outcome (to_apply_chat_template messages tokenizer False) = Inr text \<and>
     (\<not> prefix system_message text \<longrightarrow>
        outcome (to_apply_chat_template messages tokenizer True) = Inr text) \<and>
     (\<forall>rest. text = system_message @ rest \<longrightarrow>
        outcome (to_apply_chat_template messages tokenizer True) = Inr rest)"
  by (simp add: to_apply_chat_template_def)

theorem strip_system_message_witness:
  "outcome (to_apply_chat_template (Conversation [(''user'', ''hi'')])
      (\<lambda>_. Some (system_message @ ''hi'' @ system_message)) True)
     = Inr (''hi'' @ system_message)
   \<and> outcome (to_apply_chat_template (Conversation [(''user'', ''hi'')])
      (\<lambda>_. Some (system_message @ ''hi'' @ system_message)) False)
     = Inr (system_message @ ''hi'' @ system_message)"
  using strip_system_message [of "\<lambda>_. Some (system_message @ ''hi'' @ system_message)"
      "Conversation [(''user'', ''hi'')]" "system_message @ ''hi'' @ system_message"]
  by simp

subsection \<open>The stages of create_dpo_datasets\<close>

lemma contains_train_none [simp]: "\<not> contains ''train'' ''none''"
  and contains_test_none [simp]: "\<not> contains ''test'' ''none''"
  and contains_none_none [simp]: "contains ''none'' ''none''"
  by simp_all

lemma outcome_call_map [simp]: "outcome (call_map f x) = outcome (obj_map f x)"
  by (simp add: call_map_def outcome_then_run)

lemma outcome_py_len_Inr: "outcome (py_len x) = Inr n \<Longrightarrow> x \<noteq> PyNone"
  by (cases x) (auto simp: outcome_then_run)

lemma obj_map_not_None: "outcome (obj_map f x) = Inr y \<Longrightarrow> y \<noteq> PyNone"
  by (cases x) auto

lemma select_splits_Inr:
  assumes "outcome (select_splits w a d) = Inr raw"
  shows "(py_in ''train'' (splits a) \<or> py_in ''test'' (splits a) \<or> py_in ''none'' (splits a))"
    and "py_in ''none'' (splits a) \<Longrightarrow> raw ''train'' = Some d \<and> raw ''test'' = Some PyNone"
    and "\<not> py_in ''none'' (splits a) \<Longrightarrow> py_in ''train'' (splits a) \<Longrightarrow>
           \<exists>x. outcome (getitem w d ''train'') = Inr x \<and> raw ''train'' = Some x"
    and "\<not> py_in ''none'' (splits a) \<Longrightarrow> \<not> py_in ''train'' (splits a) \<Longrightarrow> raw ''train'' = None"
    and "\<not> py_in ''none'' (splits a) \<Longrightarrow> py_in ''test'' (splits a) \<Longrightarrow>
           \<exists>x. outcome (getitem w d ''test'') = Inr x \<and> raw ''test'' = Some x"
    and "\<not> py_in ''none'' (splits a) \<Longrightarrow> \<not> py_in ''test'' (splits a) \<Longrightarrow> raw ''test'' = None"
  using assms by (auto simp: select_splits_def split: if_splits)

lemma calls_select_splits [simp]: "calls (select_splits w a d) = []"
proof -
  have g: "calls (getitem w d k) = []" for k
    by (cases d) (auto split: option.splits)
  show ?thesis
    by (simp add: select_splits_def calls_then_run g split: sum.splits)
qed

lemma apply_preprocessing_Inr:
  assumes "outcome (apply_preprocessing tok a raw0) = Inr raw"
  shows "\<exists>x. raw0 ''train'' = Some x \<Longrightarrow> \<exists>x y. raw0 ''train'' = Some x \<and> raw ''train'' = Some y \<and> preprocessed tok a x y"
    and "splits a \<noteq> Str ''none'' \<Longrightarrow> \<exists>x. raw0 ''test'' = Some x \<Longrightarrow>
           \<exists>x y. raw0 ''test'' = Some x \<and> raw ''test'' = Some y \<and> preprocessed tok a x y"
    and "splits a = Str ''none'' \<Longrightarrow> raw ''test'' = raw0 ''test''"
    and "raw ''train'' \<noteq> None \<Longrightarrow> raw0 ''train'' \<noteq> None"
    and "raw ''test'' \<noteq> None \<Longrightarrow> raw0 ''test'' \<noteq> None"
  using assms by (auto simp: apply_preprocessing_def preprocessed_def split: if_splits)

lemma print_sizes_Inr:
  assumes "outcome (print_sizes a raw) = Inr u"
  shows "\<exists>x. raw ''train'' = Some x \<and> x \<noteq> PyNone"
    and "splits a \<noteq> Str ''none'' \<Longrightarrow> \<exists>x. raw ''test'' = Some x \<and> x \<noteq> PyNone"
  using assms by (auto simp: print_sizes_def split: if_splits dest: outcome_py_len_Inr)

lemma create_dpo_datasets_Inr:
  assumes "outcome (create_dpo_datasets w tok a) = Inr (tr, te)"
  shows "\<exists>d raw0 otr ote.
           outcome (load w a) = Inr d \<and> outcome (select_splits w a d) = Inr raw0 \<and>
           raw0 ''train'' = Some otr \<and> raw0 ''test'' = Some ote \<and>
           preprocessed tok a otr tr \<and> tr \<noteq> PyNone \<and>
           (if splits a = Str ''none'' then te = ote else preprocessed tok a ote te \<and> te \<noteq> PyNone)"
proof -
  from assms obtain d raw0 raw u where
    l: "outcome (load w a) = Inr d" and
    s: "outcome (select_splits w a d) = Inr raw0" and
    p: "outcome (apply_preprocessing tok a raw0) = Inr raw" and
    z: "outcome (print_sizes a raw) = Inr u" and
    r: "raw ''train'' = Some tr" "raw ''test'' = Some te"
    by (auto simp: create_dpo_datasets_def)
  from apply_preprocessing_Inr(4,5) [OF p] r obtain otr ote where
    o: "raw0 ''train'' = Some otr" "raw0 ''test'' = Some ote" by auto
  from apply_preprocessing_Inr(1) [OF p] o r have ptr: "preprocessed tok a otr tr" by auto
  from print_sizes_Inr(1) [OF z] r have n: "tr \<noteq> PyNone" by auto
  show ?thesis
  proof (cases "splits a = Str ''none''")
    case True
    with apply_preprocessing_Inr(3) [OF p] o r have "te = ote" by simp
    with True l s o ptr n show ?thesis by auto
  next
    case False
    with apply_preprocessing_Inr(2) [OF p] o r have "preprocessed tok a ote te" by auto
    moreover from False print_sizes_Inr(2) [OF z] r have "te \<noteq> PyNone" by auto
    ultimately show ?thesis using False l s o ptr n by auto
  qed
qed

lemma map_of_dict_update2:
  "map_of (dict_update r [(k1, v1), (k2, v2)]) k =
     (if k = k2 then Some v2 else if k = k1 then Some v1 else map_of r k)"
  by (simp add: dict_update_def update_conv')

lemma preprocess_Inr:
  assumes "outcome (preprocess tok a r) = Inr upd"
  shows "rendered tok a ''chosen'' r (dict_update r upd)"
    and "rendered tok a ''rejected'' r (dict_update r upd)"
    and "k \<noteq> ''chosen'' \<Longrightarrow> k \<noteq> ''rejected'' \<Longrightarrow> map_of (dict_update r upd) k = map_of r k"
  using assms
  by (auto simp: preprocess_def rendered_def map_of_dict_update2)

lemma map_rows_Inr:
  "outcome (map_rows f rs) = Inr rs' \<Longrightarrow>
     list_all2 (\<lambda>r r'. \<exists>upd. outcome (f r) = Inr upd \<and> r' = dict_update r upd) rs rs'"
  by (induction rs arbitrary: rs') auto

lemma map_splits_Inr:
  "outcome (map_splits f kvs) = Inr kvs' \<Longrightarrow>
     list_all2 (\<lambda>(k, rs) (k', rs'). k = k' \<and>
        list_all2 (\<lambda>r r'. \<exists>upd. outcome (f r) = Inr upd \<and> r' = dict_update r upd) rs rs')
       kvs kvs'"
  by (induction f kvs arbitrary: kvs' rule: map_splits.induct) (auto dest: map_rows_Inr)

lemma obj_map_Inr:
  "outcome (obj_map f x) = Inr y \<Longrightarrow>
     rowwise (\<lambda>r r'. \<exists>upd. outcome (f r) = Inr upd \<and> r' = dict_update r upd) x y"
  by (cases x) (auto dest: map_rows_Inr map_splits_Inr)

lemma rowwise_mono:
  "rowwise R x y \<Longrightarrow> (\<And>r r'. R r r' \<Longrightarrow> Q r r') \<Longrightarrow> rowwise Q x y"
proof (induction R x y rule: rowwise.induct)
  case (1 R rs rs')
  then show ?case by (auto elim: list_all2_mono)
next
  case (2 R kvs kvs')
  then show ?case
    by (auto elim!: list_all2_mono elim: list_all2_mono)
qed auto

lemma rowwise_row_counts: "rowwise R x y \<Longrightarrow> row_counts y = row_counts x"
proof (induction R x y rule: rowwise.induct)
  case (1 R rs rs')
  then show ?case by (simp add: list_all2_lengthD)
next
  case (2 R kvs kvs')
  then have "list_all2 (\<lambda>p q. length (snd q) = length (snd p)) kvs kvs'"
    by (auto elim!: list_all2_mono dest: list_all2_lengthD)
  then have "map (\<lambda>q. length (snd q)) kvs' = map (\<lambda>p. length (snd p)) kvs"
    by (induction kvs kvs' rule: list_all2_induct) auto
  then show ?case by (simp add: case_prod_unfold)
qed auto


lemma preprocessed_frame:
  assumes "outcome (obj_map (preprocess tok a) x) = Inr y"
  shows "rowwise (\<lambda>r r'. \<forall>k. k \<noteq> ''chosen'' \<and> k \<noteq> ''rejected'' \<longrightarrow> map_of r' k = map_of r k) x y"
  by (rule rowwise_mono [OF obj_map_Inr [OF assms]]) (auto dest: preprocess_Inr(3))

lemma list_all_calls_then_run:
  "list_all P (calls m) \<Longrightarrow> (\<And>x. list_all P (calls (f x))) \<Longrightarrow> list_all P (calls (then_run m f))"
  by (simp add: calls_then_run split: sum.splits)

lemma render_to_apply: "list_all is_render (calls (to_apply_chat_template c tok b))"
  by (simp add: to_apply_chat_template_def calls_then_run split: sum.splits)

lemma calls_lookup [simp]: "calls (lookup d k) = []"
  by (simp add: lookup_def split: option.splits)

lemma render_preprocess: "list_all is_render (calls (preprocess tok a r))"
  unfolding preprocess_def
  by (intro list_all_calls_then_run render_to_apply) simp_all

lemma render_map_rows:
  "(\<And>r. list_all is_render (calls (f r))) \<Longrightarrow> list_all is_render (calls (map_rows f rs))"
  by (induction rs) (auto intro!: list_all_calls_then_run)

lemma render_map_splits:
  "(\<And>r. list_all is_render (calls (f r))) \<Longrightarrow> list_all is_render (calls (map_splits f kvs))"
  by (induction f kvs rule: map_splits.induct) (auto intro!: list_all_calls_then_run render_map_rows)

lemma render_obj_map: "list_all is_render (calls (obj_map (preprocess tok a) x))"
  by (cases x) (auto intro!: list_all_calls_then_run render_map_rows render_map_splits render_preprocess)

lemmas run_defs =
  create_dpo_datasets_def load_def select_splits_def apply_preprocessing_def print_sizes_def
  call_map_def preprocess_def to_apply_chat_template_def lookup_def dict_update_def
  then_run_def ret_def raise_def log_def call_def outcome_def calls_def system_message_def

lemmas example_defs =
  example_row_def example_dataset_def example_world_def example_tokenizer_def
  example_args_def example_mapped_row_def

subsection \<open>Runs on the small dataset\<close>

lemma example_load:
  "outcome (load example_world (example_args s t)) = Inr example_dataset"
  by (simp add: run_defs example_defs)

lemma example_select:
  "outcome (select_splits example_world (example_args (Str ''train,test'') t) example_dataset)
     = Inr [''train'' \<mapsto> Dataset [example_row], ''test'' \<mapsto> Dataset []]"
  by (simp add: run_defs example_defs)

lemma example_chatml:
  "create_dpo_datasets example_world example_tokenizer
     (example_args (Str ''train,test'') ''chatml'')
   = ([Load_from_disk ''data'', Call_map (Dataset [example_row]),
       Apply_chat_template (Conversation [(''user'', ''q''), (''assistant'', ''a'')]),
       Apply_chat_template (Conversation [(''user'', ''q''), (''assistant'', ''b'')]),
       Call_map (Dataset []), Call_len (Dataset [example_mapped_row]), Print_dataset_size 1,
       Call_len (Dataset []), Print_dataset_size 0],
      Inr (Dataset [example_mapped_row], Dataset []))"
  by (simp add: run_defs example_defs)

lemma example_plain:
  "create_dpo_datasets example_world example_tokenizer
     (example_args (Str ''train,test'') ''none'')
   = ([Load_from_disk ''data'', Call_len (Dataset [example_row]), Print_dataset_size 1,
       Call_len (Dataset []), Print_dataset_size 0],
      Inr (Dataset [example_row], Dataset []))"
  by (simp add: run_defs example_defs)

lemma example_train_only:
  "create_dpo_datasets example_world example_tokenizer (example_args (Str ''train'') ''none'')
   = ([Load_from_disk ''data'', Call_len (Dataset [example_row]), Print_dataset_size 1],
      Inl (KeyError ''test''))"
  by (simp add: run_defs example_defs)

lemma example_none:
  "create_dpo_datasets example_world example_tokenizer (example_args (Str ''none'') ''none'')
   = ([Load_from_disk ''data'', Call_len example_dataset, Print_dataset_size 2],
      Inr (example_dataset, PyNone))"
  by (simp add: run_defs example_defs)

lemma example_none_list:
  "create_dpo_datasets example_world example_tokenizer (example_args (Strs [''none'']) ''chatml'')
   = ([Load_from_disk ''data'', Call_map example_dataset,
       Apply_chat_template (Conversation [(''user'', ''q''), (''assistant'', ''a'')]),
       Apply_chat_template (Conversation [(''user'', ''q''), (''assistant'', ''b'')]),
       Call_map PyNone],
      Inl (AttributeError ''map''))"
  by (simp add: run_defs example_defs)

lemma example_unknown:
  "create_dpo_datasets example_world example_tokenizer (example_args (Str ''validation'') ''chatml'')
   = ([Load_from_disk ''data''], Inl (ValueError (Str ''validation'')))"
  by (simp add: run_defs example_defs)

lemma outcome_then_run_Inl:
  "outcome (then_run m f) = Inl e \<longleftrightarrow>
     outcome m = Inl e \<or> (\<exists>x. outcome m = Inr x \<and> outcome (f x) = Inl e)"
  by (simp add: outcome_then_run split: sum.splits)

lemma in_calls_then_run:
  "c \<in> set (calls (then_run m f)) \<longleftrightarrow>
     c \<in> set (calls m) \<or> (\<exists>x. outcome m = Inr x \<and> c \<in> set (calls (f x)))"
  by (auto simp: calls_then_run split: sum.splits)

lemma calls_load:
  "calls (load w a) =
     [if is_local_data a then Load_from_disk (dataset_name a) else Load_dataset (dataset_name a)]"
  by (simp add: load_def)

lemma calls_py_len [simp]: "calls (py_len x) = [Call_len x]"
  by (cases x) (simp_all add: calls_then_run)

lemma calls_call_map: "calls (call_map f x) = Call_map x # calls (obj_map f x)"
  by (simp add: call_map_def calls_then_run)

lemma render_not_load: "list_all is_render cs \<Longrightarrow> filter is_load cs = []"
proof (induction cs)
  case (Cons c cs)
  then show ?case by (cases c) auto
qed simp

lemma no_load_apply_preprocessing:
  "filter is_load (calls (apply_preprocessing tok a raw)) = []"
  by (simp add: apply_preprocessing_def calls_then_run calls_call_map
      render_not_load [OF render_obj_map] split: sum.splits)

lemma no_load_print_sizes: "filter is_load (calls (print_sizes a raw)) = []"
  by (simp add: print_sizes_def calls_then_run split: sum.splits)

lemma getitem_world:
  "dataset_column w' = dataset_column w \<Longrightarrow> getitem w' d k = getitem w d k"
  by (cases d) simp_all

lemma select_splits_world:
  assumes "dataset_column w' = dataset_column w"
  shows "select_splits w' a d = select_splits w a d"
proof -
  have "getitem w' = getitem w"
    by (intro ext) (rule getitem_world [OF assms])
  then show ?thesis by (simp add: select_splits_def cong: if_cong)
qed

lemma example_args_simps [simp]:
  "dataset_name (example_args s t) = ''data''"
  "is_local_data (example_args s t)"
  "splits (example_args s t) = s"
  "apply_chat_template (example_args s t) = t"
  "remove_system_message (example_args s t)"
  by (simp_all add: example_args_def)

subsection \<open>Preprocessing\<close>



text \<open>
  C6. When \<open>create_dpo_datasets\<close> returns and a chat template was asked for, every returned
  split has as many rows as the split it was mapped from, and every field of a row other than
  \<^verbatim>\<open>chosen\<close> and \<^verbatim>\<open>rejected\<close> has the value it had in the loaded row.
\<close>

theorem map_frame:
  assumes "outcome (create_dpo_datasets w tok a) = Inr (train, test)"
    and "apply_chat_template a \<noteq> ''none''"
  shows "\<exists>d raw otr ote.
           outcome (load w a) = Inr d \<and> outcome (select_splits w a d) = Inr raw \<and>
           raw ''train'' = Some otr \<and> raw ''test'' = Some ote \<and>
           rowwise (\<lambda>r r'. \<forall>k. k \<noteq> ''chosen'' \<and> k \<noteq> ''rejected'' \<longrightarrow> map_of r' k = map_of r k)
             otr train \<and>
           rowwise (\<lambda>r r'. \<forall>k. k \<noteq> ''chosen'' \<and> k \<noteq> ''rejected'' \<longrightarrow> map_of r' k = map_of r k)
             ote test \<and>
           row_counts train = row_counts otr \<and> row_counts test = row_counts ote"
proof -
  let ?R = "\<lambda>r r'. \<forall>k. k \<noteq> ''chosen'' \<and> k \<noteq> ''rejected'' \<longrightarrow> map_of r' k = map_of r k"
  from create_dpo_datasets_Inr [OF assms(1)] obtain d raw otr ote where
    l: "outcome (load w a) = Inr d" and s: "outcome (select_splits w a d) = Inr raw" and
    o: "raw ''train'' = Some otr" "raw ''test'' = Some ote" and
    p: "preprocessed tok a otr train" and
    q: "if splits a = Str ''none'' then test = ote else preprocessed tok a ote test \<and> test \<noteq> PyNone"
    by blast
  have tr: "rowwise ?R otr train"
    using p assms(2) by (auto simp: preprocessed_def dest: preprocessed_frame)
  have te: "rowwise ?R ote test"
  proof (cases "splits a = Str ''none''")
    case True
    with select_splits_Inr(2) [OF s] o q show ?thesis by simp
  next
    case False
    with q assms(2) show ?thesis by (auto simp: preprocessed_def dest: preprocessed_frame)
  qed
  from tr te l s o show ?thesis
    by (intro exI [of _ d] exI [of _ raw] exI [of _ otr] exI [of _ ote])
       (auto dest: rowwise_row_counts)
qed

theorem map_frame_witness:
  "rowwise (\<lambda>r r'. \<forall>k. k \<noteq> ''chosen'' \<and> k \<noteq> ''rejected'' \<longrightarrow> map_of r' k = map_of r k)
     (Dataset [example_row]) (Dataset [example_mapped_row])
   \<and> row_counts (Dataset [example_mapped_row]) = row_counts (Dataset [example_row])"
proof -
  have "outcome (create_dpo_datasets example_world example_tokenizer
      (example_args (Str ''train,test'') ''chatml'')) = Inr (Dataset [example_mapped_row], Dataset [])"
    by (simp add: example_chatml outcome_def)
  from map_frame [OF this] show ?thesis
    by (auto simp: example_load example_select)
qed

subsection \<open>Selecting the splits\<close>

lemma getitem_no_ValueError: "outcome (getitem w d k) \<noteq> Inl (ValueError s)"
  by (cases d) (auto split: option.splits)

lemma select_splits_ValueError:
  "outcome (select_splits w a d) = Inl (ValueError s) \<Longrightarrow>
     \<not> py_in ''train'' (splits a) \<and> \<not> py_in ''test'' (splits a) \<and> \<not> py_in ''none'' (splits a)"
  by (auto simp: select_splits_def outcome_then_run_Inl getitem_no_ValueError split: if_splits)

lemma select_splits_unknown:
  "\<not> py_in ''train'' (splits a) \<Longrightarrow> \<not> py_in ''test'' (splits a) \<Longrightarrow>
   \<not> py_in ''none'' (splits a) \<Longrightarrow>
     outcome (select_splits w a d) = Inl (ValueError (splits a))"
  by (simp add: select_splits_def outcome_then_run)

lemma lookup_no_ValueError: "outcome (lookup m k) \<noteq> Inl (ValueError s)"
  by (simp add: lookup_def split: option.splits)

lemma to_apply_no_ValueError:
  "outcome (to_apply_chat_template c tok b) \<noteq> Inl (ValueError s)"
  by (auto simp: to_apply_chat_template_def outcome_then_run_Inl split: option.splits)

lemma preprocess_no_ValueError: "outcome (preprocess tok a r) \<noteq> Inl (ValueError s)"
  by (auto simp: preprocess_def outcome_then_run_Inl lookup_no_ValueError to_apply_no_ValueError)

lemma map_rows_no_ValueError:
  "(\<And>r. outcome (f r) \<noteq> Inl (ValueError s)) \<Longrightarrow> outcome (map_rows f rs) \<noteq> Inl (ValueError s)"
  by (induction rs) (auto simp: outcome_then_run_Inl)

lemma map_splits_no_ValueError:
  "(\<And>r. outcome (f r) \<noteq> Inl (ValueError s)) \<Longrightarrow>
     outcome (map_splits f kvs) \<noteq> Inl (ValueError s)"
  by (induction f kvs rule: map_splits.induct)
     (auto simp: outcome_then_run_Inl map_rows_no_ValueError)

lemma obj_map_no_ValueError:
  "outcome (obj_map (preprocess tok a) x) \<noteq> Inl (ValueError s)"
  by (cases x)
     (auto simp: outcome_then_run_Inl map_rows_no_ValueError map_splits_no_ValueError
        preprocess_no_ValueError)

lemma apply_preprocessing_no_ValueError:
  "outcome (apply_preprocessing tok a raw) \<noteq> Inl (ValueError s)"
  by (auto simp: apply_preprocessing_def outcome_then_run_Inl lookup_no_ValueError
      obj_map_no_ValueError)

lemma py_len_no_ValueError: "outcome (py_len x) \<noteq> Inl (ValueError s)"
  by (cases x) (auto simp: outcome_then_run_Inl)

lemma print_sizes_no_ValueError: "outcome (print_sizes a raw) \<noteq> Inl (ValueError s)"
  by (auto simp: print_sizes_def outcome_then_run_Inl lookup_no_ValueError py_len_no_ValueError)

lemma create_dpo_datasets_ValueError:
  assumes "outcome (create_dpo_datasets w tok a) = Inl (ValueError s)"
    and "outcome (load w a) = Inr d"
  shows "\<not> py_in ''train'' (splits a) \<and> \<not> py_in ''test'' (splits a) \<and> \<not> py_in ''none'' (splits a)"
  using assms
  by (auto simp: create_dpo_datasets_def outcome_then_run_Inl lookup_no_ValueError
      print_sizes_no_ValueError apply_preprocessing_no_ValueError
      dest: select_splits_ValueError)

lemma returns_with_none:
  assumes "outcome (create_dpo_datasets w tok a) = Inr (tr, te)"
    and "py_in ''none'' (splits a)"
  shows "splits a = Str ''none''" and "te = PyNone"
    and "\<exists>d. outcome (load w a) = Inr d \<and> preprocessed tok a d tr"
proof -
  from create_dpo_datasets_Inr [OF assms(1)] obtain d raw otr ote where
    l: "outcome (load w a) = Inr d" and s: "outcome (select_splits w a d) = Inr raw" and
    o: "raw ''train'' = Some otr" "raw ''test'' = Some ote" and
    p: "preprocessed tok a otr tr" and
    q: "if splits a = Str ''none'' then te = ote else preprocessed tok a ote te \<and> te \<noteq> PyNone"
    by blast
  from select_splits_Inr(2) [OF s assms(2)] o have e: "otr = d" "ote = PyNone" by simp_all
  show n: "splits a = Str ''none''"
  proof (rule ccontr)
    assume "splits a \<noteq> Str ''none''"
    with q e show False by (auto simp: preprocessed_def split: if_splits)
  qed
  from n q e show "te = PyNone" by simp
  from l p e show "\<exists>d. outcome (load w a) = Inr d \<and> preprocessed tok a d tr" by auto
qed

lemma returns_without_none:
  assumes "outcome (create_dpo_datasets w tok a) = Inr (tr, te)"
    and "outcome (load w a) = Inr d"
    and "\<not> py_in ''none'' (splits a)"
  shows "\<exists>x. outcome (getitem w d ''train'') = Inr x \<and> preprocessed tok a x tr"
    and "\<exists>x. outcome (getitem w d ''test'') = Inr x \<and> preprocessed tok a x te"
proof -
  from create_dpo_datasets_Inr [OF assms(1)] assms(2) obtain raw otr ote where
    s: "outcome (select_splits w a d) = Inr raw" and
    o: "raw ''train'' = Some otr" "raw ''test'' = Some ote" and
    p: "preprocessed tok a otr tr" and
    q: "if splits a = Str ''none'' then te = ote else preprocessed tok a ote te \<and> te \<noteq> PyNone"
    by auto
  from assms(3) have n: "splits a \<noteq> Str ''none''" by auto
  from select_splits_Inr(3,4) [OF s assms(3)] o p
  show "\<exists>x. outcome (getitem w d ''train'') = Inr x \<and> preprocessed tok a x tr"
    by (cases "py_in ''train'' (splits a)") auto
  from select_splits_Inr(5,6) [OF s assms(3)] o q n
  show "\<exists>x. outcome (getitem w d ''test'') = Inr x \<and> preprocessed tok a x te"
    by (cases "py_in ''test'' (splits a)") auto
qed

text \<open>
  C2, as amended. Once the dataset is loaded: if none of \<^verbatim>\<open>"train"\<close>, \<^verbatim>\<open>"test"\<close>, \<^verbatim>\<open>"none"\<close>
  is in \<^verbatim>\<open>data_args.splits\<close>, \<open>create_dpo_datasets\<close> raises the \<^verbatim>\<open>ValueError\<close> with no call
  after the loading one (so before any preprocessing), and it raises that \<^verbatim>\<open>ValueError\<close> in
  no other case. Whenever it returns, the splits were selected by membership: if \<^verbatim>\<open>"train"\<close>
  is in \<^verbatim>\<open>splits\<close> the returned train split is \<^verbatim>\<open>dataset["train"]\<close>, if \<^verbatim>\<open>"test"\<close> is in
  \<^verbatim>\<open>splits\<close> the returned test split is \<^verbatim>\<open>dataset["test"]\<close>, and if \<^verbatim>\<open>"none"\<close> is in
  \<^verbatim>\<open>splits\<close> the returned train split is the whole loaded dataset and the returned test split
  is \<^verbatim>\<open>None\<close>; a returned split that is not \<^verbatim>\<open>None\<close> is the selected one as it is when
  \<^verbatim>\<open>apply_chat_template\<close> is \<^verbatim>\<open>"none"\<close>, and the selected one mapped with \<^verbatim>\<open>preprocess\<close>
  otherwise.
\<close>

theorem split_selection:
  assumes "outcome (load w a) = Inr d"
  shows "(\<not> py_in ''train'' (splits a) \<and> \<not> py_in ''test'' (splits a) \<and> \<not> py_in ''none'' (splits a)
            \<longrightarrow> outcome (create_dpo_datasets w tok a) = Inl (ValueError (splits a))
              \<and> calls (create_dpo_datasets w tok a) = calls (load w a))
       \<and> (\<forall>s. outcome (create_dpo_datasets w tok a) = Inl (ValueError s)
            \<longrightarrow> \<not> py_in ''train'' (splits a) \<and> \<not> py_in ''test'' (splits a)
              \<and> \<not> py_in ''none'' (splits a))
       \<and> (\<forall>tr te. outcome (create_dpo_datasets w tok a) = Inr (tr, te) \<longrightarrow>
            (py_in ''train'' (splits a) \<longrightarrow>
               (\<exists>x. outcome (getitem w d ''train'') = Inr x \<and> preprocessed tok a x tr)) \<and>
            (py_in ''test'' (splits a) \<longrightarrow>
               (\<exists>x. outcome (getitem w d ''test'') = Inr x \<and> preprocessed tok a x te)) \<and>
            (py_in ''none'' (splits a) \<longrightarrow> preprocessed tok a d tr \<and> te = PyNone))"
proof (intro conjI allI impI)
  assume u: "\<not> py_in ''train'' (splits a) \<and> \<not> py_in ''test'' (splits a) \<and> \<not> py_in ''none'' (splits a)"
  then have v: "outcome (select_splits w a d) = Inl (ValueError (splits a))"
    by (simp add: select_splits_unknown)
  from v assms show "outcome (create_dpo_datasets w tok a) = Inl (ValueError (splits a))"
    by (simp add: create_dpo_datasets_def outcome_then_run)
  from v assms show "calls (create_dpo_datasets w tok a) = calls (load w a)"
    by (simp add: create_dpo_datasets_def calls_then_run)
next
  fix s
  assume "outcome (create_dpo_datasets w tok a) = Inl (ValueError s)"
  from create_dpo_datasets_ValueError [OF this assms]
  show "\<not> py_in ''train'' (splits a)" "\<not> py_in ''test'' (splits a)" "\<not> py_in ''none'' (splits a)"
    by simp_all
next
  fix tr te
  assume r: "outcome (create_dpo_datasets w tok a) = Inr (tr, te)"
  {
    assume n: "py_in ''none'' (splits a)"
    from returns_with_none(3) [OF r n] assms show "preprocessed tok a d tr" by auto
    from returns_with_none(2) [OF r n] show "te = PyNone" .
  }
  {
    assume t: "py_in ''train'' (splits a)"
    have "\<not> py_in ''none'' (splits a)"
      using returns_with_none(1) [OF r] t by auto
    from returns_without_none(1) [OF r assms this]
    show "\<exists>x. outcome (getitem w d ''train'') = Inr x \<and> preprocessed tok a x tr" .
  }
  {
    assume t: "py_in ''test'' (splits a)"
    have "\<not> py_in ''none'' (splits a)"
      using returns_with_none(1) [OF r] t by auto
    from returns_without_none(2) [OF r assms this]
    show "\<exists>x. outcome (getitem w d ''test'') = Inr x \<and> preprocessed tok a x te" .
  }
qed

theorem split_selection_witness:
  "preprocessed example_tokenizer (example_args (Str ''train,test'') ''chatml'')
     (Dataset [example_row]) (Dataset [example_mapped_row])
   \<and> create_dpo_datasets example_world example_tokenizer
        (example_args (Str ''validation'') ''chatml'')
      = ([Load_from_disk ''data''], Inl (ValueError (Str ''validation'')))"
proof -
  have g: "outcome (getitem example_world example_dataset ''train'') = Inr (Dataset [example_row])"
    by (simp add: example_dataset_def)
  have r: "outcome (create_dpo_datasets example_world example_tokenizer
      (example_args (Str ''train,test'') ''chatml'')) = Inr (Dataset [example_mapped_row], Dataset [])"
    by (simp add: example_chatml outcome_def)
  from split_selection [OF example_load, of "Str ''train,test''" "''chatml''" example_tokenizer] r g
  have "preprocessed example_tokenizer (example_args (Str ''train,test'') ''chatml'')
     (Dataset [example_row]) (Dataset [example_mapped_row])"
    by auto
  moreover
  from split_selection [OF example_load, of "Str ''validation''" "''chatml''" example_tokenizer]
  have "outcome (create_dpo_datasets example_world example_tokenizer
          (example_args (Str ''validation'') ''chatml'')) = Inl (ValueError (Str ''validation''))"
    and "calls (create_dpo_datasets example_world example_tokenizer
          (example_args (Str ''validation'') ''chatml''))
         = [Load_from_disk ''data'']"
    by (simp_all add: calls_load)
  then have "create_dpo_datasets example_world example_tokenizer
        (example_args (Str ''validation'') ''chatml'')
      = ([Load_from_disk ''data''], Inl (ValueError (Str ''validation'')))"
    by (simp add: prod_eq_iff outcome_def calls_def)
  ultimately show ?thesis by simp
qed

text \<open>
  The claim as first stated fails: with \<^verbatim>\<open>splits = "train,test"\<close> and the chat template
  \<^verbatim>\<open>"chatml"\<close>, \<^verbatim>\<open>"train"\<close> is in \<^verbatim>\<open>splits\<close>, but the returned train split is not
  \<^verbatim>\<open>dataset["train"]\<close>: its rows have been rewritten.
\<close>

theorem split_selection_counterexample:
  "py_in ''train'' (splits (example_args (Str ''train,test'') ''chatml''))
   \<and> outcome (load example_world (example_args (Str ''train,test'') ''chatml''))
       = Inr example_dataset
   \<and> outcome (getitem example_world example_dataset ''train'') = Inr (Dataset [example_row])
   \<and> outcome (create_dpo_datasets example_world example_tokenizer
         (example_args (Str ''train,test'') ''chatml''))
       = Inr (Dataset [example_mapped_row], Dataset [])
   \<and> Dataset [example_mapped_row] \<noteq> Dataset [example_row]"
proof -
  have "outcome (getitem example_world example_dataset ''train'') = Inr (Dataset [example_row])"
    by (simp add: example_dataset_def)
  moreover have "outcome (create_dpo_datasets example_world example_tokenizer
         (example_args (Str ''train,test'') ''chatml''))
       = Inr (Dataset [example_mapped_row], Dataset [])"
    by (simp add: example_chatml outcome_def)
  moreover have "Dataset [example_mapped_row] \<noteq> Dataset [example_row]"
    by (simp add: example_row_def example_mapped_row_def)
  ultimately show ?thesis by (simp add: example_load)
qed

subsection \<open>The guards on the test split\<close>

lemma render_not_map: "list_all is_render cs \<Longrightarrow> Call_map x \<notin> set cs \<and> Call_len x \<notin> set cs"
  by (induction cs) auto

lemma select_splits_none:
  "splits a = Str ''none'' \<Longrightarrow>
     select_splits w a d = ret [''train'' \<mapsto> d, ''test'' \<mapsto> PyNone]"
  by (simp add: select_splits_def then_run_def ret_def)

lemma then_run_ret [simp]: "then_run (ret x) f = f x"
  by (cases "f x") (simp add: then_run_def ret_def)

lemma create_dpo_datasets_none:
  assumes "splits a = Str ''none''" and "outcome (load w a) = Inr d"
  shows "Call_map x \<in> set (calls (create_dpo_datasets w tok a)) \<Longrightarrow> x = d"
    and "Call_len x \<in> set (calls (create_dpo_datasets w tok a)) \<Longrightarrow> preprocessed tok a d x"
    and "d \<noteq> PyNone \<Longrightarrow> preprocessed tok a d tr \<Longrightarrow>
           outcome (create_dpo_datasets w tok a) = Inr (tr, PyNone)"
proof -
  have l: "Call_map x \<notin> set (calls (load w a))" "Call_len x \<notin> set (calls (load w a))"
    by (simp_all add: calls_load)
  note r = render_not_map [OF render_obj_map, of _ tok a d]
  have n: "\<exists>k. outcome (py_len y) = Inr k" if "y \<noteq> PyNone" for y
    using that by (cases y) (simp_all add: outcome_then_run)
  show "Call_map x \<in> set (calls (create_dpo_datasets w tok a)) \<Longrightarrow> x = d"
    using assms l r
    by (auto simp: create_dpo_datasets_def select_splits_none apply_preprocessing_def
        print_sizes_def in_calls_then_run calls_call_map lookup_def split: if_splits)
  show "Call_len x \<in> set (calls (create_dpo_datasets w tok a)) \<Longrightarrow> preprocessed tok a d x"
    using assms l r
    by (auto simp: create_dpo_datasets_def select_splits_none apply_preprocessing_def
        print_sizes_def in_calls_then_run calls_call_map lookup_def preprocessed_def
        split: if_splits)
  show "d \<noteq> PyNone \<Longrightarrow> preprocessed tok a d tr \<Longrightarrow>
           outcome (create_dpo_datasets w tok a) = Inr (tr, PyNone)"
    using assms n [of d] n [of tr] obj_map_not_None [of "preprocess tok a" d tr]
    by (auto simp: create_dpo_datasets_def select_splits_none apply_preprocessing_def
        print_sizes_def lookup_def preprocessed_def split: if_splits)
qed

lemma apply_preprocessing_None_test:
  assumes "apply_chat_template a \<noteq> ''none''" and "splits a \<noteq> Str ''none''"
    and "raw ''train'' = Some d" and "raw ''test'' = Some PyNone"
    and "outcome (obj_map (preprocess tok a) d) = Inr tr"
  shows "outcome (apply_preprocessing tok a raw) = Inl (AttributeError ''map'')"
    and "Call_map PyNone \<in> set (calls (apply_preprocessing tok a raw))"
  using assms
  by (simp_all add: apply_preprocessing_def outcome_then_run in_calls_then_run lookup_def
      calls_call_map)

lemma create_dpo_datasets_None_test:
  assumes "py_in ''none'' (splits a)" and "splits a \<noteq> Str ''none''"
    and "apply_chat_template a \<noteq> ''none''"
    and "outcome (load w a) = Inr d"
    and "outcome (select_splits w a d) = Inr raw"
    and "outcome (obj_map (preprocess tok a) d) = Inr tr"
  shows "outcome (create_dpo_datasets w tok a) = Inl (AttributeError ''map'')"
    and "Call_map PyNone \<in> set (calls (create_dpo_datasets w tok a))"
proof -
  from select_splits_Inr(2) [OF assms(5) assms(1)]
  have r: "raw ''train'' = Some d" "raw ''test'' = Some PyNone" by simp_all
  note p = apply_preprocessing_None_test [OF assms(3) assms(2) r assms(6)]
  from p(1) assms(4,5) show "outcome (create_dpo_datasets w tok a) = Inl (AttributeError ''map'')"
    by (simp add: create_dpo_datasets_def outcome_then_run)
  from p(2) assms(4,5) show "Call_map PyNone \<in> set (calls (create_dpo_datasets w tok a))"
    by (auto simp: create_dpo_datasets_def in_calls_then_run)
qed

text \<open>
  C9. Once the dataset is loaded: (1) if \<open>create_dpo_datasets\<close> returns with \<^verbatim>\<open>"none"\<close> in
  \<^verbatim>\<open>splits\<close>, then \<^verbatim>\<open>splits\<close> is exactly the string \<^verbatim>\<open>"none"\<close>, the test value returned is
  \<^verbatim>\<open>None\<close> and the train value is the whole loaded dataset (preprocessed when a chat template
  is asked for); (2) when \<^verbatim>\<open>splits\<close> is exactly \<^verbatim>\<open>"none"\<close>, the only object on which
  \<^verbatim>\<open>map\<close> is called is the loaded dataset and the only object measured with \<^verbatim>\<open>len\<close> is the
  train value, so the test value \<^verbatim>\<open>None\<close> is neither mapped nor measured, and the function
  does return; (3) for any other \<^verbatim>\<open>splits\<close> containing \<^verbatim>\<open>"none"\<close>, with a chat template
  asked for, once the selection and the mapping of the train value have succeeded,
  \<^verbatim>\<open>map\<close> is called on the test value \<^verbatim>\<open>None\<close> and the run ends in the
  \<^verbatim>\<open>AttributeError\<close>.
\<close>

theorem none_guards:
  assumes "outcome (load w a) = Inr d"
  shows "(\<forall>tr te. py_in ''none'' (splits a)
             \<and> outcome (create_dpo_datasets w tok a) = Inr (tr, te)
            \<longrightarrow> splits a = Str ''none'' \<and> te = PyNone \<and> preprocessed tok a d tr)
       \<and> (splits a = Str ''none'' \<longrightarrow>
            (\<forall>x. Call_map x \<in> set (calls (create_dpo_datasets w tok a)) \<longrightarrow> x = d) \<and>
            (\<forall>x. Call_len x \<in> set (calls (create_dpo_datasets w tok a))
               \<longrightarrow> preprocessed tok a d x) \<and>
            (\<forall>tr. d \<noteq> PyNone \<and> preprocessed tok a d tr
               \<longrightarrow> outcome (create_dpo_datasets w tok a) = Inr (tr, PyNone)))
       \<and> (py_in ''none'' (splits a) \<and> splits a \<noteq> Str ''none''
            \<and> apply_chat_template a \<noteq> ''none'' \<longrightarrow>
            (\<forall>raw tr. outcome (select_splits w a d) = Inr raw
                \<and> outcome (obj_map (preprocess tok a) d) = Inr tr
               \<longrightarrow> outcome (create_dpo_datasets w tok a) = Inl (AttributeError ''map'')
                 \<and> Call_map PyNone \<in> set (calls (create_dpo_datasets w tok a))))"
proof (intro conjI allI impI)
  fix tr te
  assume h: "py_in ''none'' (splits a) \<and> outcome (create_dpo_datasets w tok a) = Inr (tr, te)"
  then have r: "outcome (create_dpo_datasets w tok a) = Inr (tr, te)"
    and n: "py_in ''none'' (splits a)" by simp_all
  from returns_with_none(1) [OF r n] show "splits a = Str ''none''" .
  from returns_with_none(2) [OF r n] show "te = PyNone" .
  from returns_with_none(3) [OF r n] assms show "preprocessed tok a d tr" by auto
next
  fix x
  assume s: "splits a = Str ''none''"
  {
    assume "Call_map x \<in> set (calls (create_dpo_datasets w tok a))"
    from create_dpo_datasets_none(1) [OF s assms this] show "x = d" .
  }
  {
    assume "Call_len x \<in> set (calls (create_dpo_datasets w tok a))"
    from create_dpo_datasets_none(2) [OF s assms this] show "preprocessed tok a d x" .
  }
  {
    assume "d \<noteq> PyNone \<and> preprocessed tok a d x"
    with create_dpo_datasets_none(3) [OF s assms, where tr = x and tok = tok]
    show "outcome (create_dpo_datasets w tok a) = Inr (x, PyNone)" by simp
  }
next
  fix raw tr
  assume g: "py_in ''none'' (splits a) \<and> splits a \<noteq> Str ''none'' \<and> apply_chat_template a \<noteq> ''none''"
    and q: "outcome (select_splits w a d) = Inr raw
       \<and> outcome (obj_map (preprocess tok a) d) = Inr tr"
  from g q create_dpo_datasets_None_test [of a w d raw tok tr] assms
  show "outcome (create_dpo_datasets w tok a) = Inl (AttributeError ''map'')"
    and "Call_map PyNone \<in> set (calls (create_dpo_datasets w tok a))"
    by simp_all
qed

lemma example_obj_map:
  "outcome (obj_map (preprocess example_tokenizer (example_args s t)) example_dataset)
     = Inr (DatasetDict [(''train'', [example_mapped_row]), (''test'', [])])"
  by (simp add: run_defs example_defs)

lemma example_select_none_list:
  "outcome (select_splits example_world (example_args (Strs [''none'']) t) example_dataset)
     = Inr [''train'' \<mapsto> example_dataset, ''test'' \<mapsto> PyNone]"
  by (simp add: run_defs example_defs)

theorem none_guards_witness:
  "outcome (create_dpo_datasets example_world example_tokenizer
      (example_args (Str ''none'') ''chatml''))
     = Inr (DatasetDict [(''train'', [example_mapped_row]), (''test'', [])], PyNone)
   \<and> Call_map PyNone \<notin> set (calls (create_dpo_datasets example_world example_tokenizer
        (example_args (Str ''none'') ''chatml'')))
   \<and> outcome (create_dpo_datasets example_world example_tokenizer
        (example_args (Strs [''none'']) ''chatml'')) = Inl (AttributeError ''map'')
   \<and> Call_map PyNone \<in> set (calls (create_dpo_datasets example_world example_tokenizer
        (example_args (Strs [''none'']) ''chatml'')))"
proof -
  have p: "preprocessed example_tokenizer (example_args (Str ''none'') ''chatml'') example_dataset
       (DatasetDict [(''train'', [example_mapped_row]), (''test'', [])])"
    by (simp add: preprocessed_def example_obj_map)
  have d: "example_dataset \<noteq> PyNone" by (simp add: example_dataset_def)
  from none_guards [OF example_load, of "Str ''none''" "''chatml''" example_tokenizer] p d
  have "outcome (create_dpo_datasets example_world example_tokenizer
      (example_args (Str ''none'') ''chatml''))
     = Inr (DatasetDict [(''train'', [example_mapped_row]), (''test'', [])], PyNone)"
    and "Call_map PyNone \<notin> set (calls (create_dpo_datasets example_world example_tokenizer
        (example_args (Str ''none'') ''chatml'')))"
    by auto
  moreover
  from none_guards [OF example_load, of "Strs [''none'']" "''chatml''" example_tokenizer]
    example_obj_map [of "Strs [''none'']" "''chatml''"] example_select_none_list [of "''chatml''"]
  have "outcome (create_dpo_datasets example_world example_tokenizer
        (example_args (Strs [''none'']) ''chatml'')) = Inl (AttributeError ''map'')"
    and "Call_map PyNone \<in> set (calls (create_dpo_datasets example_world example_tokenizer
        (example_args (Strs [''none'']) ''chatml'')))"
    by simp_all
  ultimately show ?thesis by simp
qed

subsection \<open>Loading\<close>

lemma outcome_load:
  "outcome (load w a) =
     (case (if is_local_data a then load_from_disk w (dataset_name a)
            else load_dataset w (dataset_name a)) of
        None \<Rightarrow> Inl LibraryError
      | Some d \<Rightarrow> Inr d)"
  by (simp add: load_def)

lemma select_splits_values:
  assumes "outcome (select_splits w a d) = Inr raw" and "raw k = Some x"
  shows "x = d \<or> x = PyNone \<or> outcome (getitem w d ''train'') = Inr x
           \<or> outcome (getitem w d ''test'') = Inr x"
  using assms by (auto simp: select_splits_def split: if_splits)

lemma apply_preprocessing_receivers:
  assumes "Call_map x \<in> set (calls (apply_preprocessing tok a raw))"
  shows "raw ''train'' = Some x \<or> raw ''test'' = Some x"
proof -
  have r: "Call_map x \<notin> set (calls (obj_map (preprocess tok a) y))" for y
    using render_not_map [OF render_obj_map] by blast
  from assms show ?thesis
    by (auto simp: apply_preprocessing_def in_calls_then_run calls_call_map lookup_def r
        split: if_splits option.splits)
qed

lemma print_sizes_no_map: "Call_map x \<notin> set (calls (print_sizes a raw))"
  by (auto simp: print_sizes_def in_calls_then_run split: if_splits)

lemma map_receivers:
  assumes "outcome (load w a) = Inr d"
    and "Call_map x \<in> set (calls (create_dpo_datasets w tok a))"
  shows "x = d \<or> x = PyNone \<or> outcome (getitem w d ''train'') = Inr x
           \<or> outcome (getitem w d ''test'') = Inr x"
proof -
  have "Call_map x \<notin> set (calls (load w a))" by (simp add: calls_load)
  with assms obtain raw where
    s: "outcome (select_splits w a d) = Inr raw" and
    c: "Call_map x \<in> set (calls (apply_preprocessing tok a raw))"
    by (auto simp: create_dpo_datasets_def in_calls_then_run print_sizes_no_map)
  from apply_preprocessing_receivers [OF c] select_splits_values [OF s]
  show ?thesis by blast
qed

text \<open>
  C5. Among the calls of a run of \<open>create_dpo_datasets\<close> exactly one loads a dataset: it is
  \<^verbatim>\<open>load_from_disk(data_args.dataset_name)\<close> when \<^verbatim>\<open>is_local_data\<close> is true and
  \<^verbatim>\<open>load_dataset(data_args.dataset_name)\<close> when it is false; the run does not depend on
  what the other loader would answer. What that call answers is the dataset the function
  goes on with: if the call raises, the run ends there with its exception; if it answers a
  dataset, every object on which \<^verbatim>\<open>map\<close> is called is that dataset, one of its splits
  \<^verbatim>\<open>"train"\<close> and \<^verbatim>\<open>"test"\<close>, or \<^verbatim>\<open>None\<close>, the splits of a returning run are selected
  from it, and with \<^verbatim>\<open>splits = "none"\<close> and no chat template the function returns that very
  dataset.
\<close>

theorem loader_choice:
  "filter is_load (calls (create_dpo_datasets w tok a)) =
     [if is_local_data a then Load_from_disk (dataset_name a) else Load_dataset (dataset_name a)]
   \<and> (is_local_data a \<longrightarrow>
        create_dpo_datasets (w\<lparr>load_dataset := f\<rparr>) tok a = create_dpo_datasets w tok a)
   \<and> (\<not> is_local_data a \<longrightarrow>
        create_dpo_datasets (w\<lparr>load_from_disk := f\<rparr>) tok a = create_dpo_datasets w tok a)
   \<and> outcome (load w a) =
        (case (if is_local_data a then load_from_disk w (dataset_name a)
               else load_dataset w (dataset_name a)) of
           None \<Rightarrow> Inl LibraryError
         | Some d \<Rightarrow> Inr d)
   \<and> ((if is_local_data a then load_from_disk w (dataset_name a)
         else load_dataset w (dataset_name a)) = None \<longrightarrow>
        create_dpo_datasets w tok a =
          ([if is_local_data a then Load_from_disk (dataset_name a)
            else Load_dataset (dataset_name a)], Inl LibraryError))
   \<and> (\<forall>d. (if is_local_data a then load_from_disk w (dataset_name a)
             else load_dataset w (dataset_name a)) = Some d \<longrightarrow>
          (\<forall>x. Call_map x \<in> set (calls (create_dpo_datasets w tok a)) \<longrightarrow>
             x = d \<or> x = PyNone \<or> outcome (getitem w d ''train'') = Inr x
               \<or> outcome (getitem w d ''test'') = Inr x)
        \<and> (\<forall>tr te. outcome (create_dpo_datasets w tok a) = Inr (tr, te) \<longrightarrow>
             (py_in ''none'' (splits a) \<longrightarrow> preprocessed tok a d tr \<and> te = PyNone) \<and>
             (\<not> py_in ''none'' (splits a) \<longrightarrow>
                (\<exists>x. outcome (getitem w d ''train'') = Inr x \<and> preprocessed tok a x tr) \<and>
                (\<exists>y. outcome (getitem w d ''test'') = Inr y \<and> preprocessed tok a y te)))
        \<and> (splits a = Str ''none'' \<and> apply_chat_template a = ''none'' \<and> d \<noteq> PyNone \<longrightarrow>
             outcome (create_dpo_datasets w tok a) = Inr (d, PyNone)))"
proof (intro conjI allI impI)
  show "filter is_load (calls (create_dpo_datasets w tok a)) =
     [if is_local_data a then Load_from_disk (dataset_name a) else Load_dataset (dataset_name a)]"
    by (simp add: create_dpo_datasets_def calls_then_run calls_load
        no_load_apply_preprocessing no_load_print_sizes split: sum.splits)
next
  assume "is_local_data a"
  then have "load (w\<lparr>load_dataset := f\<rparr>) a = load w a" by (simp add: load_def)
  then show "create_dpo_datasets (w\<lparr>load_dataset := f\<rparr>) tok a = create_dpo_datasets w tok a"
    by (simp add: create_dpo_datasets_def select_splits_world [of "w\<lparr>load_dataset := f\<rparr>" w])
next
  assume "\<not> is_local_data a"
  then have "load (w\<lparr>load_from_disk := f\<rparr>) a = load w a" by (simp add: load_def)
  then show "create_dpo_datasets (w\<lparr>load_from_disk := f\<rparr>) tok a = create_dpo_datasets w tok a"
    by (simp add: create_dpo_datasets_def select_splits_world [of "w\<lparr>load_from_disk := f\<rparr>" w])
next
  show "outcome (load w a) =
        (case (if is_local_data a then load_from_disk w (dataset_name a)
               else load_dataset w (dataset_name a)) of
           None \<Rightarrow> Inl LibraryError
         | Some d \<Rightarrow> Inr d)"
    by (rule outcome_load)
next
  assume "(if is_local_data a then load_from_disk w (dataset_name a)
         else load_dataset w (dataset_name a)) = None"
  then have l: "outcome (load w a) = Inl LibraryError" by (simp add: outcome_load)
  have o: "outcome (create_dpo_datasets w tok a) = Inl LibraryError"
    by (simp add: create_dpo_datasets_def outcome_then_run l)
  have c: "calls (create_dpo_datasets w tok a) =
      [if is_local_data a then Load_from_disk (dataset_name a)
       else Load_dataset (dataset_name a)]"
    by (simp add: create_dpo_datasets_def calls_then_run l calls_load)
  have e: "create_dpo_datasets w tok a
      = (calls (create_dpo_datasets w tok a), outcome (create_dpo_datasets w tok a))"
    by (simp add: calls_def outcome_def)
  show "create_dpo_datasets w tok a =
          ([if is_local_data a then Load_from_disk (dataset_name a)
            else Load_dataset (dataset_name a)], Inl LibraryError)"
    by (subst e) (simp only: o c)
next
  fix d
  assume "(if is_local_data a then load_from_disk w (dataset_name a)
             else load_dataset w (dataset_name a)) = Some d"
  then have l: "outcome (load w a) = Inr d" by (simp add: outcome_load)
  {
    fix x
    assume "Call_map x \<in> set (calls (create_dpo_datasets w tok a))"
    from map_receivers [OF l this]
    show "x = d \<or> x = PyNone \<or> outcome (getitem w d ''train'') = Inr x
               \<or> outcome (getitem w d ''test'') = Inr x" .
  }
  {
    fix tr te
    assume r: "outcome (create_dpo_datasets w tok a) = Inr (tr, te)"
    {
      assume n: "py_in ''none'' (splits a)"
      from returns_with_none(3) [OF r n] l show "preprocessed tok a d tr" by auto
      from returns_with_none(2) [OF r n] show "te = PyNone" .
    }
    {
      assume n: "\<not> py_in ''none'' (splits a)"
      from returns_without_none(1) [OF r l n]
      show "\<exists>x. outcome (getitem w d ''train'') = Inr x \<and> preprocessed tok a x tr" .
      from returns_without_none(2) [OF r l n]
      show "\<exists>y. outcome (getitem w d ''test'') = Inr y \<and> preprocessed tok a y te" .
    }
  }
  {
    assume h: "splits a = Str ''none'' \<and> apply_chat_template a = ''none'' \<and> d \<noteq> PyNone"
    then have "preprocessed tok a d d" by (simp add: preprocessed_def)
    with h create_dpo_datasets_none(3) [OF _ l, where tr = d and tok = tok]
    show "outcome (create_dpo_datasets w tok a) = Inr (d, PyNone)" by simp
  }
qed

theorem loader_choice_witness:
  "filter is_load (calls (create_dpo_datasets example_world example_tokenizer
      (example_args (Str ''train,test'') ''chatml''))) = [Load_from_disk ''data'']
   \<and> create_dpo_datasets (example_world\<lparr>load_dataset := (\<lambda>n. Some PyNone)\<rparr>) example_tokenizer
        (example_args (Str ''train,test'') ''chatml'')
      = create_dpo_datasets example_world example_tokenizer
        (example_args (Str ''train,test'') ''chatml'')
   \<and> outcome (load example_world (example_args (Str ''train,test'') ''chatml''))
      = Inr example_dataset
   \<and> preprocessed example_tokenizer (example_args (Str ''train,test'') ''chatml'')
        (Dataset [example_row]) (Dataset [example_mapped_row])
   \<and> outcome (create_dpo_datasets example_world example_tokenizer
        (example_args (Str ''none'') ''none'')) = Inr (example_dataset, PyNone)"
proof -
  have a: "load_from_disk example_world ''data'' = Some example_dataset"
    by (simp add: example_world_def)
  have g: "outcome (getitem example_world example_dataset ''train'') = Inr (Dataset [example_row])"
    by (simp add: example_dataset_def)
  have r: "outcome (create_dpo_datasets example_world example_tokenizer
      (example_args (Str ''train,test'') ''chatml'')) = Inr (Dataset [example_mapped_row], Dataset [])"
    by (simp add: example_chatml outcome_def)
  have d: "example_dataset \<noteq> PyNone" by (simp add: example_dataset_def)
  note T = loader_choice [of example_world example_tokenizer
      "example_args (Str ''train,test'') ''chatml''" "\<lambda>n. Some PyNone"]
  note U = loader_choice [of example_world example_tokenizer
      "example_args (Str ''none'') ''none''" "\<lambda>n. Some PyNone"]
  from T have 1: "filter is_load (calls (create_dpo_datasets example_world example_tokenizer
      (example_args (Str ''train,test'') ''chatml''))) = [Load_from_disk ''data'']"
    by simp
  from T have 2: "create_dpo_datasets (example_world\<lparr>load_dataset := (\<lambda>n. Some PyNone)\<rparr>)
        example_tokenizer (example_args (Str ''train,test'') ''chatml'')
      = create_dpo_datasets example_world example_tokenizer
        (example_args (Str ''train,test'') ''chatml'')"
    by simp
  from T [THEN conjunct2, THEN conjunct2, THEN conjunct2, THEN conjunct1] a
  have 3: "outcome (load example_world (example_args (Str ''train,test'') ''chatml''))
      = Inr example_dataset"
    by simp
  have c: "(if is_local_data (example_args (Str ''train,test'') ''chatml'')
            then load_from_disk example_world
                   (dataset_name (example_args (Str ''train,test'') ''chatml''))
            else load_dataset example_world
                   (dataset_name (example_args (Str ''train,test'') ''chatml'')))
           = Some example_dataset"
    by (simp add: a)
  note V = T [THEN conjunct2, THEN conjunct2, THEN conjunct2, THEN conjunct2, THEN conjunct2,
      rule_format, OF c, THEN conjunct2, THEN conjunct1, rule_format, OF r]
  from V g have 4: "preprocessed example_tokenizer (example_args (Str ''train,test'') ''chatml'')
        (Dataset [example_row]) (Dataset [example_mapped_row])"
    by simp
  have c': "(if is_local_data (example_args (Str ''none'') ''none'')
            then load_from_disk example_world
                   (dataset_name (example_args (Str ''none'') ''none''))
            else load_dataset example_world
                   (dataset_name (example_args (Str ''none'') ''none'')))
           = Some example_dataset"
    by (simp add: a)
  note W = U [THEN conjunct2, THEN conjunct2, THEN conjunct2, THEN conjunct2, THEN conjunct2,
      rule_format, OF c', THEN conjunct2, THEN conjunct2]
  from W d have 5: "outcome (create_dpo_datasets example_world example_tokenizer
        (example_args (Str ''none'') ''none'')) = Inr (example_dataset, PyNone)"
    by simp
  from 1 2 3 4 5 show ?thesis by blast
qed

subsection \<open>Model preparation\<close>

lemma split_nonempty: "split sep s \<noteq> []"
  by (induction s) (auto split: list.splits)

lemma join_split: "join sep (split sep s) = s"
proof (induction s)
  case Nil
  show ?case by simp
next
  case (Cons c cs)
  obtain w ws where e: "split sep cs = w # ws"
    using split_nonempty [of sep cs] by (cases "split sep cs") auto
  with Cons show ?case by (cases ws) auto
qed

lemma split_no_sep: "w \<in> set (split sep s) \<Longrightarrow> sep \<notin> set w"
  by (induction s arbitrary: w) (auto split: if_splits list.splits)





lemma create_and_prepare_Inr:
  assumes "outcome (create_and_prepare_model_for_dpo w args data_args training_args)
             = Inr (model, peft_config, tokenizer)"
  shows "\<exists>bnb qsd.
           outcome (quantization w args) = Inr (bnb, qsd) \<and>
           outcome (load_model w args bnb (choose_torch_dtype qsd)) = Inr model \<and>
           peft_config = peft_configuration args \<and>
           outcome (prepare_tokenizer w args data_args bnb model) = Inr tokenizer \<and>
           calls (create_and_prepare_model_for_dpo w args data_args training_args) =
             calls (quantization w args) @ calls (load_model w args bnb (choose_torch_dtype qsd))
             @ calls (prepare_tokenizer w args data_args bnb model)"
  using assms
  by (auto simp: create_and_prepare_model_for_dpo_def calls_then_run split: prod.splits)






text \<open>
  C8. When \<open>create_and_prepare_model_for_dpo\<close> returns, the \<^verbatim>\<open>peft_config\<close> returned is not
  \<^verbatim>\<open>None\<close> exactly when \<^verbatim>\<open>use_peft_lora\<close> is true, and then it is the \<^verbatim>\<open>LoraConfig\<close> of the
  given \<^verbatim>\<open>lora_alpha\<close>, \<^verbatim>\<open>lora_dropout\<close> and \<^verbatim>\<open>lora_r\<close>, with \<^verbatim>\<open>bias="none"\<close>,
  \<^verbatim>\<open>task_type="CAUSAL_LM"\<close>, and as \<^verbatim>\<open>target_modules\<close> the string \<^verbatim>\<open>"all-linear"\<close> itself
  when \<^verbatim>\<open>lora_target_modules\<close> is that string, and \<^verbatim>\<open>lora_target_modules\<close> split on commas
  otherwise (pieces without a comma that, joined with commas, give the string back).
\<close>

theorem peft_config_choice:
  assumes "outcome (create_and_prepare_model_for_dpo w args data_args training_args)
             = Inr (model, peft_config, tokenizer)"
  shows "(peft_config \<noteq> None \<longleftrightarrow> use_peft_lora args)
       \<and> (use_peft_lora args \<longrightarrow>
            peft_config =
              Some (LoraConfig (lora_alpha args) (lora_dropout args) (lora_r args) ''none''
                      ''CAUSAL_LM''
                      (if lora_target_modules args = ''all-linear''
                       then Module_spec ''all-linear''
                       else Module_names (split CHR '','' (lora_target_modules args)))))
       \<and> join CHR '','' (split CHR '','' (lora_target_modules args)) = lora_target_modules args
       \<and> (\<forall>m \<in> set (split CHR '','' (lora_target_modules args)). CHR '','' \<notin> set m)"
proof -
  from create_and_prepare_Inr [OF assms] have "peft_config = peft_configuration args"
    by blast
  then show ?thesis
    by (auto simp: peft_configuration_def join_split dest: split_no_sep)
qed



lemmas prep_defs =
  create_and_prepare_model_for_dpo_def quantization_def choose_torch_dtype_def load_model_def
  peft_configuration_def template_choice_def prepare_tokenizer_def list_values_def members_def
  lower_def then_run_def ret_def raise_def log_def call_def

lemma example_prep_run:
  "create_and_prepare_model_for_dpo example_prep_world (example_model_args True True)
     (example_args (Str ''train,test'') ''chatml'') ()
   = ([Getattr_torch ''bfloat16'', Getattr_torch ''uint8'',
       Model_from_pretrained ''Qwen''
         (Some (BitsAndBytesConfig_4bit True ''nf4'' Bfloat16 True Uint8)) True ''eager'' Float32,
       Tokenizer_from_pretrained ''Qwen''
         (Some \<lparr>pad_token = ''<|endoftext|>'', bos_token = ''None'', eos_token = ''<|im_end|>'',
                additional_special_tokens =
                  [''<|im_start|>user'', ''<|im_start|>assistant'', ''<|im_start|>system'',
                   ''<|im_end|>'', ''None'', ''<|endoftext|>'']\<rparr>) True,
       Version_at_least ''4.46.1'' ''4.46.0'',
       Environ_get ''ACCELERATE_USE_FSDP'' [],
       Resize_token_embeddings 151665 8 (Some False)],
      Inr (''model of Qwen'',
           Some (LoraConfig 16 ''0.1'' 8 ''none'' ''CAUSAL_LM''
                   (Module_names [''q_proj'', ''v_proj''])),
           \<lparr>loaded = ''tokenizer of Qwen'',
            chat_template = Some DEFAULT_CHATML_CHAT_TEMPLATE\<rparr>))"
  by (simp add: prep_defs example_prep_world_def example_model_args_def)

lemma example_prep_outcome:
  "outcome (create_and_prepare_model_for_dpo example_prep_world (example_model_args True True)
     (example_args (Str ''train,test'') ''chatml'') ())
   = Inr (''model of Qwen'',
           Some (LoraConfig 16 ''0.1'' 8 ''none'' ''CAUSAL_LM''
                   (Module_names [''q_proj'', ''v_proj''])),
           \<lparr>loaded = ''tokenizer of Qwen'',
            chat_template = Some DEFAULT_CHATML_CHAT_TEMPLATE\<rparr>)"
  by (simp add: example_prep_run outcome_def)





lemma example_model_args_simps [simp]:
  "model_name_or_path (example_model_args f e) = ''Qwen''"
  "use_4bit_quantization (example_model_args f e) = f"
  "use_8bit_quantization (example_model_args f e) = e"
  "bnb_4bit_quant_type (example_model_args f e) = ''nf4''"
  "bnb_4bit_compute_dtype (example_model_args f e) = ''bfloat16''"
  "bnb_4bit_quant_storage_dtype (example_model_args f e) = ''uint8''"
  "use_nested_quant (example_model_args f e)"
  "\<not> use_flash_attn (example_model_args f e)"
  "use_peft_lora (example_model_args f e)"
  "lora_target_modules (example_model_args f e) = ''q_proj,v_proj''"
  by (simp_all add: example_model_args_def)

theorem peft_config_choice_witness:
  "use_peft_lora (example_model_args True True)
   \<and> Module_names [''q_proj'', ''v_proj'']
       = Module_names (split CHR '','' (lora_target_modules (example_model_args True True)))
   \<and> join CHR '','' (split CHR '','' ''q_proj,v_proj'') = ''q_proj,v_proj''"
  using peft_config_choice [OF example_prep_outcome]
  by (simp add: example_model_args_def)







end
